theory Spec2Isabelle
  imports Main "HOL-Library.Word"
begin

section \<open>Fallback block processing of the node (libNode/FallbackBlockProcessing.cpp)\<close>

text \<open>
  A shallow embedding of the four member functions of \<open>Node\<close> defined in
  \<open>src/libNode/FallbackBlockProcessing.cpp\<close>:
  \<open>UpdateDSCommitteeAfterFallback\<close>, \<open>VerifyFallbackBlockCoSignature\<close>,
  \<open>ProcessFallbackBlock\<close> and \<open>SendFallbackBlockToOtherShardNodes\<close>.

  The classes, constants and helpers these functions use are declared in headers that are
  not part of the sources at hand (\<open>Node.h\<close>, \<open>common/Constants.h\<close>,
  \<open>libMessage/Messenger.h\<close>, the crypto and storage libraries). Constants and pure
  helpers are fields of the record \<open>env\<close>, so every theorem holds for all their values;
  calls that act on a collaborator are recorded, in program order, in a list of events.
\<close>

subsection \<open>Data model\<close>

type_synonym bytes = "8 word list"

datatype PubKey = PubKey nat
datatype Peer = Peer nat nat
datatype Signature = Signature nat

type_synonym BlockHash = bytes
type_synonym CommitteeHash = bytes
type_synonym StateHash = bytes

text \<open>
  A shard member is the tuple built by \<open>make_tuple(leaderPubKey, leaderNetworkInfo, 0)\<close>
  at line 224: public key (\<open>SHARD_NODE_PUBKEY\<close>), peer (\<open>SHARD_NODE_PEER\<close>) and a third,
  numeric component. A member of the DS committee is the pair pushed at lines 49 and 51.
\<close>

type_synonym ShardNode = "PubKey \<times> Peer \<times> 16 word"
type_synonym Shard = "ShardNode list"
type_synonym DequeOfShard = "Shard list"
type_synonym DequeOfNode = "(PubKey \<times> Peer) list"

definition SHARD_NODE_PUBKEY :: "ShardNode \<Rightarrow> PubKey" where
  "SHARD_NODE_PUBKEY n = fst n"

definition SHARD_NODE_PEER :: "ShardNode \<Rightarrow> Peer" where
  "SHARD_NODE_PEER n = fst (snd n)"

text \<open>The header fields read through getters in this file, with the getters' names.\<close>

record FallbackBlockHeader =
  GetVersion :: "32 word"
  GetFallbackDSEpochNo :: "64 word"
  GetFallbackEpochNo :: "64 word"
  GetStateRootHash :: StateHash
  GetLeaderConsensusId :: "16 word"
  GetLeaderNetworkInfo :: Peer
  GetLeaderPubKey :: PubKey
  GetShardId :: "32 word"
  GetCommitteeHash :: CommitteeHash

record FallbackBlock =
  GetHeader :: FallbackBlockHeader
  GetBlockHash :: BlockHash
  GetTimestamp :: "64 word"
  GetCS1 :: Signature
  GetB1 :: "bool list"
  GetCS2 :: Signature
  GetB2 :: "bool list"

datatype BlockType = DS | VC | FB

record BlockLink =
  bl_index :: "64 word"
  bl_dsindex :: "64 word"
  bl_type :: BlockType
  bl_hash :: BlockHash

text \<open>The mutexes taken in this file.\<close>

datatype lock =
  m_MutexCVFallbackBlock | m_mutexShards | m_mutexDSCommittee | m_mutexProcessedTransactions

text \<open>
  Calls on collaborators and lock operations, in the order the code performs them.
  \<open>Acquire\<close> is the construction of a \<open>lock_guard\<close> or \<open>unique_lock\<close>, \<open>Release\<close> its
  destruction at the end of its scope or at a \<open>return\<close> inside it.
\<close>

datatype event =
    Acquire lock
  | Release lock
  | CallAggregatePubKeys "PubKey list"
  | CallMultiSigVerify bytes nat nat Signature PubKey
  | CallAddBlockLink "64 word" "64 word" BlockType BlockHash
  | CallPutFallbackBlock BlockHash bytes
  | CallFallbackTimerPulse
  | CallDetachedFunction_writeStateToDisk
  | CallSendBlockToOtherShardNodes bytes "32 word" "32 word"
  | CallCleanCreatedTransaction
  | CallCleanMicroblockConsensusBuffer
  | CallInitTemp
  | CallInitiatePoW

text \<open>
  Constants of \<open>common/Constants.h\<close> and the collaborators' pure functions. The counters
  \<open>index\<close>, \<open>count\<close> and \<open>cluster_size\<close> are declared \<open>unsigned int\<close> in the file; the
  constants they are compared with and assigned from are taken to have the same type.

  \<open>CheckState_PROCESS_FALLBACKBLOCK\<close> is the value of \<open>CheckState(PROCESS_FALLBACKBLOCK)\<close>
  at line 123, \<open>wait_for_WAITING_FALLBACKBLOCK\<close> the value returned by
  \<open>cv_fallbackBlock.wait_for\<close> at line 129 (whether \<open>m_state\<close> became
  \<open>WAITING_FALLBACKBLOCK\<close> within the timeout). \<open>header_Serialize\<close>, \<open>CS1_Serialize\<close>
  and \<open>BitVector_bytes\<close> give the bytes the three serializers write (\<open>None\<close>: the
  serializer returns false). \<open>PutFallbackBlock_ok\<close> is the value returned by the block
  storage.
\<close>

record env =
  FALLBACKBLOCK_VERSION :: "32 word"
  CONSENSUS_OBJECT_TIMEOUT :: "32 word"
  FALLBACK_INTERVAL_WAITING :: "32 word"
  FALLBACK_CHECK_INTERVAL :: "32 word"
  FALLBACK_EXTRA_TIME :: "32 word"
  LOOKUP_NODE_MODE :: bool
  BROADCAST_TREEBASED_CLUSTER_MODE :: bool
  NUM_FORWARDED_BLOCK_RECEIVERS_PER_SHARD :: "32 word"
  NUM_DS_ELECTION :: "32 word"
  NUM_OF_TREEBASED_CHILD_CLUSTERS :: "32 word"
  MessageType_NODE :: "8 word"
  NodeInstructionType_FALLBACKBLOCK :: "8 word"
  MessageOffset_BODY :: nat
  CheckState_PROCESS_FALLBACKBLOCK :: bool
  wait_for_WAITING_FALLBACKBLOCK :: bool
  GetNodeFallbackBlock :: "bytes \<Rightarrow> nat \<Rightarrow> FallbackBlock option"
  CheckWhetherBlockIsLatest :: "64 word \<Rightarrow> 64 word \<Rightarrow> bool"
  GetMyHash :: "FallbackBlockHeader \<Rightarrow> BlockHash"
  VerifyTimestamp :: "64 word \<Rightarrow> 32 word \<Rightarrow> bool"
  GetShardHash :: "Shard \<Rightarrow> CommitteeHash option"
  NumForConsensus :: "nat \<Rightarrow> 32 word"
  AggregatePubKeys :: "PubKey list \<Rightarrow> PubKey option"
  header_Serialize :: "FallbackBlockHeader \<Rightarrow> bytes option"
  CS1_Serialize :: "Signature \<Rightarrow> bytes"
  BitVector_bytes :: "bool list \<Rightarrow> bytes"
  MultiSigVerify :: "bytes \<Rightarrow> nat \<Rightarrow> nat \<Rightarrow> Signature \<Rightarrow> PubKey \<Rightarrow> bool"
  fbblockwshards_Serialize :: "FallbackBlock \<Rightarrow> DequeOfShard \<Rightarrow> bytes option"
  PutFallbackBlock_ok :: "BlockHash \<Rightarrow> bytes \<Rightarrow> bool"
  SetNodeFallbackBlock :: "bytes \<Rightarrow> nat \<Rightarrow> FallbackBlock \<Rightarrow> bytes option"

text \<open>The shared and node-local state the file reads and writes.\<close>

record node =
  m_shards :: DequeOfShard
  m_DSCommittee :: DequeOfNode
  m_blocklinkchain :: "BlockLink list"
  blockStorage :: "BlockHash \<Rightarrow> bytes option"
  accountStore_StateRootHash :: StateHash
  m_currentEpochNum :: "64 word"
  m_processedTransactions :: "64 word \<Rightarrow> nat list option"
  m_consensusID :: "32 word"
  m_consensusLeaderID :: "16 word"

subsection \<open>UpdateDSCommitteeAfterFallback (lines 40-55)\<close>

text \<open>
  The body of the range-for loop: a member equal to the leader in key and peer is pushed
  to the front of the deque, every other member to the back.
\<close>

fun UpdateDSCommittee_loop ::
  "PubKey \<Rightarrow> Peer \<Rightarrow> ShardNode list \<Rightarrow> DequeOfNode \<Rightarrow> DequeOfNode" where
  "UpdateDSCommittee_loop leaderPubKey leaderNetworkInfo [] dsComm = dsComm"
| "UpdateDSCommittee_loop leaderPubKey leaderNetworkInfo (shardNode # rest) dsComm =
     (if SHARD_NODE_PUBKEY shardNode = leaderPubKey \<and>
         SHARD_NODE_PEER shardNode = leaderNetworkInfo
      then UpdateDSCommittee_loop leaderPubKey leaderNetworkInfo rest
             ((leaderPubKey, leaderNetworkInfo) # dsComm)
      else UpdateDSCommittee_loop leaderPubKey leaderNetworkInfo rest
             (dsComm @ [(SHARD_NODE_PUBKEY shardNode, SHARD_NODE_PEER shardNode)]))"

text \<open>
  \<open>dsComm.clear()\<close>, then the loop over \<open>shards[shard_id]\<close>. Indexing a deque out of
  range is undefined behaviour in C++; the model returns \<open>None\<close> there.
\<close>

definition UpdateDSCommitteeAfterFallback ::
  "32 word \<Rightarrow> PubKey \<Rightarrow> Peer \<Rightarrow> DequeOfNode \<Rightarrow> DequeOfShard \<Rightarrow> DequeOfNode option" where
  "UpdateDSCommitteeAfterFallback shard_id leaderPubKey leaderNetworkInfo dsComm shards =
     (if unat shard_id < length shards
      then Some (UpdateDSCommittee_loop leaderPubKey leaderNetworkInfo
                   (shards ! unat shard_id) [])
      else None)"

subsection \<open>SendFallbackBlockToOtherShardNodes (lines 347-364)\<close>

definition cluster_size_used :: "env \<Rightarrow> 32 word" where
  "cluster_size_used e =
     (let cluster_size = NUM_FORWARDED_BLOCK_RECEIVERS_PER_SHARD e
      in if cluster_size \<le> NUM_DS_ELECTION e then NUM_DS_ELECTION e + 1 else cluster_size)"

definition SendFallbackBlockToOtherShardNodes :: "env \<Rightarrow> bytes \<Rightarrow> event list" where
  "SendFallbackBlockToOtherShardNodes e fallbackblock_message =
     [CallSendBlockToOtherShardNodes fallbackblock_message (cluster_size_used e)
        (NUM_OF_TREEBASED_CHILD_CLUSTERS e)]"

subsection \<open>VerifyFallbackBlockCoSignature (lines 57-115)\<close>

text \<open>
  The loop of lines 78-84 over the members of the shard. \<open>index\<close> and \<open>count\<close> are
  \<open>unsigned int\<close>, so both wrap at \<open>2 ^ 32\<close>; \<open>B2.at(index)\<close> throws
  \<open>std::out_of_range\<close> when \<open>index\<close> is not below \<open>B2.size()\<close>, which is the result
  \<open>None\<close> here.
\<close>

fun select_keys ::
  "ShardNode list \<Rightarrow> bool list \<Rightarrow> 32 word \<Rightarrow> 32 word \<Rightarrow> PubKey list
     \<Rightarrow> (PubKey list \<times> 32 word) option" where
  "select_keys [] B2 index count keys = Some (keys, count)"
| "select_keys (shardNode # rest) B2 index count keys =
     (if length B2 \<le> unat index then None
      else if B2 ! unat index
      then select_keys rest B2 (index + 1) (count + 1) (keys @ [SHARD_NODE_PUBKEY shardNode])
      else select_keys rest B2 (index + 1) count keys)"

text \<open>
  Modelled from the spec: \<open>Serializable::Serialize(dst, offset)\<close> and
  \<open>BitVector::SetBitVector(dst, offset, value)\<close> are not in the sources at hand. The spec
  (4.1, step 5) has the message be the header bytes, followed by the bytes of \<open>CS1\<close>,
  followed by the encoding of \<open>B1\<close>; a serializer called with a destination and an
  offset writes its bytes from that offset on, growing the destination as needed, so
  that a write at \<open>offset = dst.size()\<close> appends.
\<close>

definition write_at :: "bytes \<Rightarrow> nat \<Rightarrow> bytes \<Rightarrow> bytes" where
  "write_at dst offset data =
     take offset dst @ replicate (offset - length dst) 0 @ data @
     drop (offset + length data) dst"

text \<open>
  Where the function leaves: one constructor for each \<open>return\<close>, one for the undefined
  read of \<open>m_shards[shard_id]\<close> out of range and one for the exception of \<open>B2.at\<close>.
\<close>

datatype cosig_outcome =
    CosigShardOutOfRange
  | CosigSizeMismatch
  | CosigBitmapOutOfRange
  | CosigNotEnough
  | CosigAggregateFailed
  | CosigHeaderSerializeFailed
  | CosigVerifyFailed
  | CosigVerified

definition cosig_message :: "env \<Rightarrow> FallbackBlock \<Rightarrow> bytes option" where
  "cosig_message e fallbackblock =
     (case header_Serialize e (GetHeader fallbackblock) of
        None \<Rightarrow> None
      | Some hdr \<Rightarrow>
          (let message = write_at [] 0 hdr;
               message = write_at message (length message)
                           (CS1_Serialize e (GetCS1 fallbackblock));
               message = write_at message (length message)
                           (BitVector_bytes e (GetB1 fallbackblock))
           in Some message))"

definition VerifyFallbackBlockCoSignature_run ::
  "env \<Rightarrow> node \<Rightarrow> FallbackBlock \<Rightarrow> cosig_outcome \<times> event list" where
  "VerifyFallbackBlockCoSignature_run e nd fallbackblock =
     (let shard_id = GetShardId (GetHeader fallbackblock);
          B2 = GetB2 fallbackblock
      in if length (m_shards nd) \<le> unat shard_id then (CosigShardOutOfRange, [])
         else if length (m_shards nd ! unat shard_id) \<noteq> length B2
         then (CosigSizeMismatch, [])
         else
           (case select_keys (m_shards nd ! unat shard_id) B2 0 0 [] of
              None \<Rightarrow> (CosigBitmapOutOfRange, [])
            | Some (keys, count) \<Rightarrow>
                if count \<noteq> NumForConsensus e (length B2) then (CosigNotEnough, [])
                else
                  (case AggregatePubKeys e keys of
                     None \<Rightarrow> (CosigAggregateFailed, [CallAggregatePubKeys keys])
                   | Some aggregatedKey \<Rightarrow>
                       (case cosig_message e fallbackblock of
                          None \<Rightarrow>
                            (CosigHeaderSerializeFailed, [CallAggregatePubKeys keys])
                        | Some message \<Rightarrow>
                            (if \<not> MultiSigVerify e message 0 (length message)
                                    (GetCS2 fallbackblock) aggregatedKey
                             then CosigVerifyFailed else CosigVerified,
                             [CallAggregatePubKeys keys,
                              CallMultiSigVerify message 0 (length message)
                                (GetCS2 fallbackblock) aggregatedKey])))))"

text \<open>The value returned: \<open>None\<close> where the function does not return.\<close>

definition VerifyFallbackBlockCoSignature :: "env \<Rightarrow> node \<Rightarrow> FallbackBlock \<Rightarrow> bool option" where
  "VerifyFallbackBlockCoSignature e nd fallbackblock =
     (case fst (VerifyFallbackBlockCoSignature_run e nd fallbackblock) of
        CosigShardOutOfRange \<Rightarrow> None
      | CosigBitmapOutOfRange \<Rightarrow> None
      | CosigVerified \<Rightarrow> Some True
      | _ \<Rightarrow> Some False)"

subsection \<open>The BlockLink chain\<close>

text \<open>
  Modelled from the spec: \<open>BlockLinkChain::GetLatestIndex\<close> and
  \<open>BlockLinkChain::AddBlockLink\<close> are not in the sources at hand. The spec (3 and 4.3)
  has the chain append-only: an entry of index, epoch number, block type and block hash
  is added at the end and no earlier entry is changed or removed. The latest index is
  the index of the last entry; for the empty chain, on which the spec is silent, it is 0.
\<close>

definition GetLatestIndex :: "BlockLink list \<Rightarrow> 64 word" where
  "GetLatestIndex chain = (case chain of [] \<Rightarrow> 0 | _ \<Rightarrow> bl_index (last chain))"

definition AddBlockLink ::
  "BlockLink list \<Rightarrow> 64 word \<Rightarrow> 64 word \<Rightarrow> BlockType \<Rightarrow> BlockHash \<Rightarrow> BlockLink list" where
  "AddBlockLink chain index dsindex blocktype blockhash =
     chain @ [\<lparr>bl_index = index, bl_dsindex = dsindex, bl_type = blocktype,
               bl_hash = blockhash\<rparr>]"

subsection \<open>ProcessFallbackBlock (lines 117-345)\<close>

text \<open>One constructor for each \<open>return false\<close> of the function, in program order.\<close>

datatype rejection =
    NotInState
  | GetNodeFallbackBlockFailed
  | VersionMismatch
  | NotLatest
  | BlockHashMismatch
  | TimestampInvalid
  | ShardDoesNotExist
  | GetShardHashFailed
  | CommitteeHashMismatch
  | LeaderIdTooLarge
  | LeaderNotFound
  | StateRootMismatch
  | CoSigFailed
  | StoreFailed

text \<open>
  \<open>Rejected r\<close>: the function returns false at \<open>r\<close>; \<open>Done\<close>: it returns true at line
  344; \<open>Abnormal\<close>: it does not return (an exception or an undefined read).
\<close>

datatype outcome = Rejected rejection | Done | Abnormal

text \<open>Lines 123-138: the state check and the timed wait on the condition variable.\<close>

definition await_ready :: "env \<Rightarrow> bool \<times> event list" where
  "await_ready e =
     (if \<not> CheckState_PROCESS_FALLBACKBLOCK e
      then (wait_for_WAITING_FALLBACKBLOCK e,
            [Acquire m_MutexCVFallbackBlock, Release m_MutexCVFallbackBlock])
      else (True, []))"

text \<open>Lines 283-305, the rest of the locked block once the block is stored.\<close>

definition commit_tail ::
  "env \<Rightarrow> node \<Rightarrow> FallbackBlock \<Rightarrow> outcome \<times> node \<times> event list" where
  "commit_tail e nd fallbackblock =
     (case UpdateDSCommitteeAfterFallback (GetShardId (GetHeader fallbackblock))
             (GetLeaderPubKey (GetHeader fallbackblock))
             (GetLeaderNetworkInfo (GetHeader fallbackblock))
             (m_DSCommittee nd) (m_shards nd) of
        None \<Rightarrow> (Abnormal, nd, [CallFallbackTimerPulse, Acquire m_mutexDSCommittee])
      | Some dsComm \<Rightarrow>
          (Done, nd\<lparr>m_DSCommittee := dsComm\<rparr>,
           [CallFallbackTimerPulse, Acquire m_mutexDSCommittee, Release m_mutexDSCommittee,
            CallDetachedFunction_writeStateToDisk]))"

text \<open>Lines 263-281, then \<open>commit_tail\<close>.\<close>

definition commit :: "env \<Rightarrow> node \<Rightarrow> FallbackBlock \<Rightarrow> outcome \<times> node \<times> event list" where
  "commit e nd fallbackblock =
     (let latestInd = GetLatestIndex (m_blocklinkchain nd) + 1;
          dsEpoch = GetFallbackDSEpochNo (GetHeader fallbackblock);
          nd1 = nd\<lparr>m_blocklinkchain :=
                     AddBlockLink (m_blocklinkchain nd) latestInd dsEpoch FB
                       (GetBlockHash fallbackblock)\<rparr>;
          ev1 = [CallAddBlockLink latestInd dsEpoch FB (GetBlockHash fallbackblock)]
      in case fbblockwshards_Serialize e fallbackblock (m_shards nd) of
           None \<Rightarrow>
             (case commit_tail e nd1 fallbackblock of
                (r, nd2, ev2) \<Rightarrow> (r, nd2, ev1 @ ev2))
         | Some dst \<Rightarrow>
             if \<not> PutFallbackBlock_ok e (GetBlockHash fallbackblock) dst
             then (Rejected StoreFailed, nd1,
                   ev1 @ [CallPutFallbackBlock (GetBlockHash fallbackblock) dst])
             else
               (case commit_tail e
                       (nd1\<lparr>blockStorage :=
                              (blockStorage nd1)(GetBlockHash fallbackblock \<mapsto> dst)\<rparr>)
                       fallbackblock of
                  (r, nd2, ev2) \<Rightarrow>
                    (r, nd2,
                     ev1 @ [CallPutFallbackBlock (GetBlockHash fallbackblock) dst] @ ev2)))"

text \<open>
  Lines 182-306, the block guarded by \<open>m_mutexShards\<close>. The guard is released when the
  block is left, by a \<open>return\<close> or at its end.
\<close>

definition locked_section ::
  "env \<Rightarrow> node \<Rightarrow> FallbackBlock \<Rightarrow> outcome \<times> node \<times> event list" where
  "locked_section e nd fallbackblock =
     (let hdr = GetHeader fallbackblock;
          shard_id = GetShardId hdr
      in if length (m_shards nd) \<le> unat shard_id then (Rejected ShardDoesNotExist, nd, [])
         else
           (case GetShardHash e (m_shards nd ! unat shard_id) of
              None \<Rightarrow> (Rejected GetShardHashFailed, nd, [])
            | Some committeeHash \<Rightarrow>
                if committeeHash \<noteq> GetCommitteeHash hdr
                then (Rejected CommitteeHashMismatch, nd, [])
                else if length (m_shards nd ! unat shard_id) \<le> unat (GetLeaderConsensusId hdr)
                then (Rejected LeaderIdTooLarge, nd, [])
                else if find (\<lambda>item. GetLeaderPubKey hdr = SHARD_NODE_PUBKEY item \<and>
                                      GetLeaderNetworkInfo hdr = SHARD_NODE_PEER item)
                          (m_shards nd ! unat shard_id) = None
                then (Rejected LeaderNotFound, nd, [])
                else if accountStore_StateRootHash nd \<noteq> GetStateRootHash hdr
                then (Rejected StateRootMismatch, nd, [])
                else
                  (case VerifyFallbackBlockCoSignature_run e nd fallbackblock of
                     (c, evc) \<Rightarrow>
                       (case VerifyFallbackBlockCoSignature e nd fallbackblock of
                          None \<Rightarrow> (Abnormal, nd, evc)
                        | Some False \<Rightarrow> (Rejected CoSigFailed, nd, evc)
                        | Some True \<Rightarrow>
                            (case commit e nd fallbackblock of
                               (r, nd', evm) \<Rightarrow> (r, nd', evc @ evm))))))"

text \<open>Lines 308-338, after the locked block.\<close>

definition post_commit :: "env \<Rightarrow> node \<Rightarrow> FallbackBlock \<Rightarrow> node \<times> event list" where
  "post_commit e nd fallbackblock =
     (if \<not> LOOKUP_NODE_MODE e
      then
        (nd\<lparr>m_processedTransactions :=
              (m_processedTransactions nd)(m_currentEpochNum nd := None)\<rparr>,
         (if BROADCAST_TREEBASED_CLUSTER_MODE e
          then
            (case SetNodeFallbackBlock e
                    [MessageType_NODE e, NodeInstructionType_FALLBACKBLOCK e]
                    (MessageOffset_BODY e) fallbackblock of
               None \<Rightarrow> []
             | Some message2 \<Rightarrow> SendFallbackBlockToOtherShardNodes e message2)
          else []) @
         [Acquire m_mutexProcessedTransactions, Release m_mutexProcessedTransactions,
          CallCleanCreatedTransaction, CallCleanMicroblockConsensusBuffer, CallInitTemp,
          CallInitiatePoW])
      else (nd\<lparr>m_consensusID := 0, m_consensusLeaderID := 0\<rparr>, []))"

definition ProcessFallbackBlock_run ::
  "env \<Rightarrow> node \<Rightarrow> bytes \<Rightarrow> nat \<Rightarrow> Peer \<Rightarrow> outcome \<times> node \<times> event list" where
  "ProcessFallbackBlock_run e nd message cur_offset from =
     (case await_ready e of
        (False, ev0) \<Rightarrow> (Rejected NotInState, nd, ev0)
      | (True, ev0) \<Rightarrow>
          (case GetNodeFallbackBlock e message cur_offset of
             None \<Rightarrow> (Rejected GetNodeFallbackBlockFailed, nd, ev0)
           | Some fallbackblock \<Rightarrow>
               if GetVersion (GetHeader fallbackblock) \<noteq> FALLBACKBLOCK_VERSION e
               then (Rejected VersionMismatch, nd, ev0)
               else if \<not> CheckWhetherBlockIsLatest e
                            (GetFallbackDSEpochNo (GetHeader fallbackblock))
                            (GetFallbackEpochNo (GetHeader fallbackblock))
               then (Rejected NotLatest, nd, ev0)
               else if GetMyHash e (GetHeader fallbackblock) \<noteq> GetBlockHash fallbackblock
               then (Rejected BlockHashMismatch, nd, ev0)
               else if \<not> VerifyTimestamp e (GetTimestamp fallbackblock)
                            (CONSENSUS_OBJECT_TIMEOUT e + FALLBACK_INTERVAL_WAITING e +
                             FALLBACK_CHECK_INTERVAL e + FALLBACK_EXTRA_TIME e)
               then (Rejected TimestampInvalid, nd, ev0)
               else
                 (case locked_section e nd fallbackblock of
                    (Done, nd1, ev1) \<Rightarrow>
                      (case post_commit e nd1 fallbackblock of
                         (nd2, ev2) \<Rightarrow>
                           (Done, nd2,
                            ev0 @ [Acquire m_mutexShards] @ ev1 @ [Release m_mutexShards] @
                            ev2))
                  | (r, nd1, ev1) \<Rightarrow>
                      (r, nd1,
                       ev0 @ [Acquire m_mutexShards] @ ev1 @ [Release m_mutexShards]))))"

text \<open>The value returned: \<open>None\<close> where the function does not return.\<close>

definition ProcessFallbackBlock :: "env \<Rightarrow> node \<Rightarrow> bytes \<Rightarrow> nat \<Rightarrow> Peer \<Rightarrow> bool option" where
  "ProcessFallbackBlock e nd message cur_offset from =
     (case fst (ProcessFallbackBlock_run e nd message cur_offset from) of
        Rejected r \<Rightarrow> Some False
      | Done \<Rightarrow> Some True
      | Abnormal \<Rightarrow> None)"

section \<open>Notions used to state the properties\<close>

subsection \<open>Committee members, selected keys, bit counts\<close>

text \<open>A shard member reduced to its public key and its network address.\<close>

definition member_pair :: "ShardNode \<Rightarrow> PubKey \<times> Peer" where
  "member_pair n = (SHARD_NODE_PUBKEY n, SHARD_NODE_PEER n)"

text \<open>The public keys of the members whose bit is set in the bitmap, in shard order.\<close>

definition selected_keys :: "ShardNode list \<Rightarrow> bool list \<Rightarrow> PubKey list" where
  "selected_keys shard B2 = map (\<lambda>p. SHARD_NODE_PUBKEY (fst p)) (filter snd (zip shard B2))"

definition count_set_bits :: "bool list \<Rightarrow> nat" where
  "count_set_bits B = length (filter (\<lambda>b. b) B)"

subsection \<open>Locks held at the cryptographic calls\<close>

text \<open>The locks held after a sequence of events, starting from the set \<open>L\<close>.\<close>

fun locks_after :: "lock set \<Rightarrow> event list \<Rightarrow> lock set" where
  "locks_after L [] = L"
| "locks_after L (Acquire l # es) = locks_after (insert l L) es"
| "locks_after L (Release l # es) = locks_after (L - {l}) es"
| "locks_after L (ev # es) = locks_after L es"

text \<open>The calls of key aggregation and of signature verification.\<close>

fun is_crypto_call :: "event \<Rightarrow> bool" where
  "is_crypto_call (CallAggregatePubKeys ks) = True"
| "is_crypto_call (CallMultiSigVerify m off sz sg k) = True"
| "is_crypto_call ev = False"

text \<open>
  For each call of key aggregation or signature verification in a sequence of events,
  in order, the set of locks held when the call is made.
\<close>

fun crypto_contexts :: "lock set \<Rightarrow> event list \<Rightarrow> lock set list" where
  "crypto_contexts L [] = []"
| "crypto_contexts L (Acquire l # es) = crypto_contexts (insert l L) es"
| "crypto_contexts L (Release l # es) = crypto_contexts (L - {l}) es"
| "crypto_contexts L (ev # es) =
     (if is_crypto_call ev then L # crypto_contexts L es else crypto_contexts L es)"

subsection \<open>The validation pipeline as the specification words it\<close>

text \<open>
  The states of the pipeline of section 4.2 of the specification, the order in which it
  lists them, and the state each \<open>return false\<close> of the code belongs to.
\<close>

datatype stage =
    AWAIT_READY
  | DECODE
  | VERSION_CHECK
  | FRESHNESS_CHECK
  | HASH_INTEGRITY_CHECK
  | TIMESTAMP_CHECK
  | SHARD_EXISTENCE_CHECK
  | COMMITTEE_HASH_CHECK
  | LEADER_IDENTITY_CHECK
  | STATE_ROOT_CHECK
  | COSIG_CHECK
  | COMMIT

definition pipeline_order :: "stage list" where
  "pipeline_order =
     [AWAIT_READY, DECODE, VERSION_CHECK, FRESHNESS_CHECK, HASH_INTEGRITY_CHECK,
      TIMESTAMP_CHECK, SHARD_EXISTENCE_CHECK, COMMITTEE_HASH_CHECK, LEADER_IDENTITY_CHECK,
      STATE_ROOT_CHECK, COSIG_CHECK]"

fun stage_of :: "rejection \<Rightarrow> stage" where
  "stage_of NotInState = AWAIT_READY"
| "stage_of GetNodeFallbackBlockFailed = DECODE"
| "stage_of VersionMismatch = VERSION_CHECK"
| "stage_of NotLatest = FRESHNESS_CHECK"
| "stage_of BlockHashMismatch = HASH_INTEGRITY_CHECK"
| "stage_of TimestampInvalid = TIMESTAMP_CHECK"
| "stage_of ShardDoesNotExist = SHARD_EXISTENCE_CHECK"
| "stage_of GetShardHashFailed = COMMITTEE_HASH_CHECK"
| "stage_of CommitteeHashMismatch = COMMITTEE_HASH_CHECK"
| "stage_of LeaderIdTooLarge = LEADER_IDENTITY_CHECK"
| "stage_of LeaderNotFound = LEADER_IDENTITY_CHECK"
| "stage_of StateRootMismatch = STATE_ROOT_CHECK"
| "stage_of CoSigFailed = COSIG_CHECK"
| "stage_of StoreFailed = COMMIT"

text \<open>The checks made inside the block guarded by \<open>m_mutexShards\<close>.\<close>

definition locked_checks :: "stage list" where
  "locked_checks = [SHARD_EXISTENCE_CHECK, COMMITTEE_HASH_CHECK, LEADER_IDENTITY_CHECK,
                    STATE_ROOT_CHECK, COSIG_CHECK]"

text \<open>What each check of section 4.2 asks of a decoded block.\<close>

fun block_check :: "env \<Rightarrow> node \<Rightarrow> FallbackBlock \<Rightarrow> stage \<Rightarrow> bool" where
  "block_check e nd fb VERSION_CHECK =
     (GetVersion (GetHeader fb) = FALLBACKBLOCK_VERSION e)"
| "block_check e nd fb FRESHNESS_CHECK =
     CheckWhetherBlockIsLatest e (GetFallbackDSEpochNo (GetHeader fb))
       (GetFallbackEpochNo (GetHeader fb))"
| "block_check e nd fb HASH_INTEGRITY_CHECK =
     (GetMyHash e (GetHeader fb) = GetBlockHash fb)"
| "block_check e nd fb TIMESTAMP_CHECK =
     VerifyTimestamp e (GetTimestamp fb)
       (CONSENSUS_OBJECT_TIMEOUT e + FALLBACK_INTERVAL_WAITING e +
        FALLBACK_CHECK_INTERVAL e + FALLBACK_EXTRA_TIME e)"
| "block_check e nd fb SHARD_EXISTENCE_CHECK =
     (unat (GetShardId (GetHeader fb)) < length (m_shards nd))"
| "block_check e nd fb COMMITTEE_HASH_CHECK =
     (GetShardHash e (m_shards nd ! unat (GetShardId (GetHeader fb))) =
      Some (GetCommitteeHash (GetHeader fb)))"
| "block_check e nd fb LEADER_IDENTITY_CHECK =
     (unat (GetLeaderConsensusId (GetHeader fb)) <
        length (m_shards nd ! unat (GetShardId (GetHeader fb))) \<and>
      (GetLeaderPubKey (GetHeader fb), GetLeaderNetworkInfo (GetHeader fb)) \<in>
        set (map member_pair (m_shards nd ! unat (GetShardId (GetHeader fb)))))"
| "block_check e nd fb STATE_ROOT_CHECK =
     (GetStateRootHash (GetHeader fb) = accountStore_StateRootHash nd)"
| "block_check e nd fb COSIG_CHECK =
     (VerifyFallbackBlockCoSignature e nd fb = Some True)"
| "block_check e nd fb s = True"

definition check_passes :: "env \<Rightarrow> node \<Rightarrow> bytes \<Rightarrow> nat \<Rightarrow> stage \<Rightarrow> bool" where
  "check_passes e nd message cur_offset s =
     (if s = AWAIT_READY
      then CheckState_PROCESS_FALLBACKBLOCK e \<or> wait_for_WAITING_FALLBACKBLOCK e
      else
        (case GetNodeFallbackBlock e message cur_offset of
           None \<Rightarrow> False
         | Some fb \<Rightarrow> block_check e nd fb s))"

text \<open>The first check, in the order of the specification, that does not pass.\<close>

definition first_failure :: "env \<Rightarrow> node \<Rightarrow> bytes \<Rightarrow> nat \<Rightarrow> stage option" where
  "first_failure e nd message cur_offset =
     find (\<lambda>s. \<not> check_passes e nd message cur_offset s) pipeline_order"

text \<open>The calls of \<open>AddBlockLink\<close>.\<close>

definition is_AddBlockLink :: "event \<Rightarrow> bool" where
  "is_AddBlockLink ev = (case ev of CallAddBlockLink i d t h \<Rightarrow> True | _ \<Rightarrow> False)"

text \<open>The events of the commit step (lines 263-289).\<close>

fun is_commit_event :: "event \<Rightarrow> bool" where
  "is_commit_event (CallAddBlockLink i d t h) = True"
| "is_commit_event (CallPutFallbackBlock h d) = True"
| "is_commit_event CallFallbackTimerPulse = True"
| "is_commit_event (Acquire l) = (l = m_mutexDSCommittee)"
| "is_commit_event (Release l) = (l = m_mutexDSCommittee)"
| "is_commit_event ev = False"

subsection \<open>A sample node, block and configuration\<close>

text \<open>
  A shard of four members whose second member is the fallback leader, a block co-signed by
  three of them, and collaborators under which the block passes every check. The quorum
  for four members is three.
\<close>

definition ex_shard :: Shard where
  "ex_shard = [(PubKey 1, Peer 1 1, 0), (PubKey 2, Peer 2 2, 0),
               (PubKey 3, Peer 3 3, 0), (PubKey 4, Peer 4 4, 0)]"

definition ex_header :: FallbackBlockHeader where
  "ex_header = \<lparr>GetVersion = 1, GetFallbackDSEpochNo = 5, GetFallbackEpochNo = 9,
     GetStateRootHash = [7], GetLeaderConsensusId = 1, GetLeaderNetworkInfo = Peer 2 2,
     GetLeaderPubKey = PubKey 2, GetShardId = 0, GetCommitteeHash = [4]\<rparr>"

definition ex_block :: FallbackBlock where
  "ex_block = \<lparr>GetHeader = ex_header, GetBlockHash = [171], GetTimestamp = 100,
     GetCS1 = Signature 1, GetB1 = [True, True, True, False], GetCS2 = Signature 2,
     GetB2 = [True, False, True, True]\<rparr>"

definition ex_env :: env where
  "ex_env = \<lparr>FALLBACKBLOCK_VERSION = 1, CONSENSUS_OBJECT_TIMEOUT = 10,
     FALLBACK_INTERVAL_WAITING = 20, FALLBACK_CHECK_INTERVAL = 30, FALLBACK_EXTRA_TIME = 40,
     LOOKUP_NODE_MODE = False, BROADCAST_TREEBASED_CLUSTER_MODE = True,
     NUM_FORWARDED_BLOCK_RECEIVERS_PER_SHARD = 3, NUM_DS_ELECTION = 5,
     NUM_OF_TREEBASED_CHILD_CLUSTERS = 2, MessageType_NODE = 2,
     NodeInstructionType_FALLBACKBLOCK = 6, MessageOffset_BODY = 2,
     CheckState_PROCESS_FALLBACKBLOCK = True, wait_for_WAITING_FALLBACKBLOCK = False,
     GetNodeFallbackBlock = (\<lambda>m off. if drop off m = [] then None else Some ex_block),
     CheckWhetherBlockIsLatest = (\<lambda>d ep. d = 5 \<and> ep = 9),
     GetMyHash = (\<lambda>h. [171]),
     VerifyTimestamp = (\<lambda>ts tol. tol = 100),
     GetShardHash = (\<lambda>s. Some [of_nat (length s)]),
     NumForConsensus = (\<lambda>n. of_nat (2 * n div 3 + 1)),
     AggregatePubKeys = (\<lambda>ks. if ks = [] then None else Some (PubKey (length ks))),
     header_Serialize = (\<lambda>h. Some [1, 2]),
     CS1_Serialize = (\<lambda>s. [3]),
     BitVector_bytes = (\<lambda>b. [4, 5]),
     MultiSigVerify = (\<lambda>m off sz sg k. m = [1, 2, 3, 4, 5] \<and> off = 0 \<and> sz = 5),
     fbblockwshards_Serialize = (\<lambda>fb sh. Some [9]),
     PutFallbackBlock_ok = (\<lambda>h d. True),
     SetNodeFallbackBlock = (\<lambda>m off fb. Some (m @ [7]))\<rparr>"

definition ex_node :: node where
  "ex_node = \<lparr>m_shards = [ex_shard], m_DSCommittee = [(PubKey 9, Peer 9 9)],
     m_blocklinkchain = [\<lparr>bl_index = 41, bl_dsindex = 4, bl_type = DS, bl_hash = [1]\<rparr>],
     blockStorage = Map.empty, accountStore_StateRootHash = [7], m_currentEpochNum = 9,
     m_processedTransactions = [9 \<mapsto> [1, 2]], m_consensusID = 3, m_consensusLeaderID = 2\<rparr>"

definition ex_message :: bytes where
  "ex_message = [2, 6, 1]"

text \<open>The same block with all four bits of \<open>B2\<close> set: one signer more than the quorum.\<close>

definition ex_block_all_signed :: FallbackBlock where
  "ex_block_all_signed = ex_block\<lparr>GetB2 := [True, True, True, True]\<rparr>"

text \<open>A shard that lists the leader's key and address twice.\<close>

definition ex_shard_twice :: Shard where
  "ex_shard_twice = [(PubKey 1, Peer 1 1, 0), (PubKey 2, Peer 2 2, 0),
                     (PubKey 3, Peer 3 3, 0), (PubKey 2, Peer 2 2, 1)]"

text \<open>A block storage that refuses the block, and a serializer that fails.\<close>

definition ex_env_store_fails :: env where
  "ex_env_store_fails = ex_env\<lparr>PutFallbackBlock_ok := (\<lambda>h d. False)\<rparr>"

definition ex_env_serialize_fails :: env where
  "ex_env_serialize_fails = ex_env\<lparr>fbblockwshards_Serialize := (\<lambda>fb sh. None)\<rparr>"

text \<open>A configuration whose \<open>NUM_DS_ELECTION\<close> is the largest \<open>unsigned int\<close>.\<close>

definition ex_env_max_election :: env where
  "ex_env_max_election = ex_env\<lparr>NUM_DS_ELECTION := 4294967295\<rparr>"

section \<open>Properties\<close>

subsection \<open>Auxiliary facts about the loops and the counters\<close>

lemma UpdateDSCommittee_loop_eq:
  "UpdateDSCommittee_loop k p ns ds =
     replicate (count_list (map member_pair ns) (k, p)) (k, p) @ ds @
     filter (\<lambda>m. m \<noteq> (k, p)) (map member_pair ns)"
proof (induction ns arbitrary: ds)
  case Nil
  show ?case by simp
next
  case (Cons n ns)
  show ?case
    by (cases "member_pair n = (k, p)")
       (auto simp: Cons.IH member_pair_def replicate_app_Cons_same)
qed

lemma select_keys_eq:
  "unat index + length ns = length B2 \<Longrightarrow> length B2 < 2 ^ 32 \<Longrightarrow>
   select_keys ns B2 index count keys =
     Some (keys @ selected_keys ns (drop (unat index) B2),
           count + of_nat (count_set_bits (drop (unat index) B2)))"
proof (induction ns arbitrary: index count keys)
  case Nil
  then show ?case by (simp add: selected_keys_def count_set_bits_def)
next
  case (Cons n ns)
  from Cons.prems have lt: "unat index < length B2" by simp
  from Cons.prems have "unat index + 1 < 2 ^ 32" by simp
  then have suc: "unat (index + 1) = Suc (unat index)"
    by (simp add: unat_word_ariths)
  have dr: "drop (unat index) B2 = B2 ! unat index # drop (Suc (unat index)) B2"
    using lt by (simp add: Cons_nth_drop_Suc)
  have ih: "\<And>count keys. select_keys ns B2 (index + 1) count keys =
     Some (keys @ selected_keys ns (drop (Suc (unat index)) B2),
           count + of_nat (count_set_bits (drop (Suc (unat index)) B2)))"
    using Cons.IH [of "index + 1"] Cons.prems suc by simp
  show ?case
    using lt by (simp add: ih dr selected_keys_def count_set_bits_def)
qed

lemma select_keys_from_start:
  assumes "length shard = length B2" and "length B2 < 2 ^ 32"
  shows "select_keys shard B2 0 0 [] =
           Some (selected_keys shard B2, of_nat (count_set_bits B2))"
  using select_keys_eq [of 0 shard B2 0 "[]"] assms by simp

lemma select_keys_total_big:
  "2 ^ 32 \<le> length B2 \<Longrightarrow> select_keys ns B2 index count keys \<noteq> None"
proof (induction ns arbitrary: index count keys)
  case Nil
  show ?case by simp
next
  case (Cons n ns)
  have "unat index < 2 ^ 32" using unsigned_less [of index] by simp
  with Cons.prems have "unat index < length B2" by linarith
  then show ?case using Cons by simp
qed

lemma select_keys_total:
  assumes "length shard = length B2"
  shows "select_keys shard B2 0 0 [] \<noteq> None"
proof (cases "length B2 < 2 ^ 32")
  case True
  then show ?thesis using select_keys_from_start [OF assms] by simp
next
  case False
  then show ?thesis using select_keys_total_big [of B2] by simp
qed

lemma count_set_bits_le: "count_set_bits B \<le> length B"
  by (simp add: count_set_bits_def)

lemma of_nat_eq_word32:
  assumes "c < 2 ^ 32"
  shows "((of_nat c :: 32 word) = w) = (c = unat w)"
proof
  assume "(of_nat c :: 32 word) = w"
  then have "unat w = unat (of_nat c :: 32 word)" by simp
  also have "\<dots> = c" using assms by (simp add: unat_of_nat)
  finally show "c = unat w" by simp
next
  assume "c = unat w"
  then show "(of_nat c :: 32 word) = w" by simp
qed

lemma word_lt_succ: "(x :: 32 word) \<noteq> - 1 \<Longrightarrow> x < x + 1"
  by (metis inc_less_eq_triv_imp linorder_less_linear word_le_less_eq)

lemma cosig_message_eq:
  "cosig_message e fb =
     map_option (\<lambda>hdr. hdr @ CS1_Serialize e (GetCS1 fb) @ BitVector_bytes e (GetB1 fb))
       (header_Serialize e (GetHeader fb))"
  by (simp add: cosig_message_def write_at_def Let_def split: option.splits)

lemma cosig_run_sizes_equal:
  assumes "unat (GetShardId (GetHeader fb)) < length (m_shards nd)"
      and "length (m_shards nd ! unat (GetShardId (GetHeader fb))) = length (GetB2 fb)"
      and "length (GetB2 fb) < 2 ^ 32"
  shows "VerifyFallbackBlockCoSignature_run e nd fb =
     (let keys = selected_keys (m_shards nd ! unat (GetShardId (GetHeader fb))) (GetB2 fb)
      in if count_set_bits (GetB2 fb) \<noteq> unat (NumForConsensus e (length (GetB2 fb)))
         then (CosigNotEnough, [])
         else
           (case AggregatePubKeys e keys of
              None \<Rightarrow> (CosigAggregateFailed, [CallAggregatePubKeys keys])
            | Some aggregatedKey \<Rightarrow>
                (case cosig_message e fb of
                   None \<Rightarrow> (CosigHeaderSerializeFailed, [CallAggregatePubKeys keys])
                 | Some message \<Rightarrow>
                     (if \<not> MultiSigVerify e message 0 (length message) (GetCS2 fb) aggregatedKey
                      then CosigVerifyFailed else CosigVerified,
                      [CallAggregatePubKeys keys,
                       CallMultiSigVerify message 0 (length message) (GetCS2 fb)
                         aggregatedKey]))))"
proof -
  have c: "count_set_bits (GetB2 fb) < 2 ^ 32"
    using count_set_bits_le [of "GetB2 fb"] assms(3) by linarith
  show ?thesis
    using assms(1)
    by (simp add: VerifyFallbackBlockCoSignature_run_def Let_def
          select_keys_from_start [OF assms(2) assms(3)] of_nat_eq_word32 [OF c] assms(2))
qed

lemma cosig_returns:
  assumes "unat (GetShardId (GetHeader fb)) < length (m_shards nd)"
  shows "VerifyFallbackBlockCoSignature e nd fb \<noteq> None"
proof (cases "length (m_shards nd ! unat (GetShardId (GetHeader fb))) = length (GetB2 fb)")
  case True
  from select_keys_total [OF True] obtain ks c
    where "select_keys (m_shards nd ! unat (GetShardId (GetHeader fb))) (GetB2 fb) 0 0 [] =
             Some (ks, c)"
    by auto
  then show ?thesis
    using assms True
    by (auto simp: VerifyFallbackBlockCoSignature_def VerifyFallbackBlockCoSignature_run_def
          Let_def split: option.splits)
next
  case False
  then show ?thesis
    using assms
    by (simp add: VerifyFallbackBlockCoSignature_def VerifyFallbackBlockCoSignature_run_def
          Let_def)
qed

subsection \<open>The events of a run\<close>

lemma locks_after_append:
  "locks_after L (xs @ ys) = locks_after (locks_after L xs) ys"
  by (induction L xs rule: locks_after.induct) simp_all

lemma crypto_contexts_append:
  "crypto_contexts L (xs @ ys) =
     crypto_contexts L xs @ crypto_contexts (locks_after L xs) ys"
  by (induction L xs rule: crypto_contexts.induct) simp_all

lemma crypto_contexts_none:
  "(\<forall>x \<in> set xs. \<not> is_crypto_call x) \<Longrightarrow> crypto_contexts L xs = []"
  by (induction L xs rule: crypto_contexts.induct) simp_all

lemma filter_none: "(\<And>x. x \<in> set xs \<Longrightarrow> \<not> P x) \<Longrightarrow> filter P xs = []"
  by (induction xs) simp_all

lemma cosig_events:
  "snd (VerifyFallbackBlockCoSignature_run e nd fb) = [] \<or>
   (\<exists>ks. snd (VerifyFallbackBlockCoSignature_run e nd fb) = [CallAggregatePubKeys ks]) \<or>
   (\<exists>ks m sz sg k. snd (VerifyFallbackBlockCoSignature_run e nd fb) =
      [CallAggregatePubKeys ks, CallMultiSigVerify m 0 sz sg k])"
  by (simp add: VerifyFallbackBlockCoSignature_run_def Let_def split: option.splits prod.splits)

lemma cosig_events_locks:
  "set (crypto_contexts L (snd (VerifyFallbackBlockCoSignature_run e nd fb))) \<subseteq> {L} \<and>
   locks_after L (snd (VerifyFallbackBlockCoSignature_run e nd fb)) = L \<and>
   (\<forall>ev \<in> set (snd (VerifyFallbackBlockCoSignature_run e nd fb)). \<not> is_commit_event ev)"
  using cosig_events [of e nd fb] by auto

lemma cosig_events_no_link:
  assumes "x \<in> set (snd (VerifyFallbackBlockCoSignature_run e nd fb))"
  shows "\<not> is_AddBlockLink x \<and> \<not> is_commit_event x \<and> (\<forall>h d. x \<noteq> CallPutFallbackBlock h d)"
  using cosig_events [of e nd fb] assms by (auto simp: is_AddBlockLink_def)

lemma await_ready_events:
  "snd (await_ready e) = [] \<or>
   snd (await_ready e) = [Acquire m_MutexCVFallbackBlock, Release m_MutexCVFallbackBlock]"
  by (simp add: await_ready_def)

lemma await_ready_locks:
  "crypto_contexts {} (snd (await_ready e)) = [] \<and> locks_after {} (snd (await_ready e)) = {} \<and>
   (\<forall>x \<in> set (snd (await_ready e)). \<not> is_commit_event x \<and> \<not> is_crypto_call x)"
  using await_ready_events [of e] by auto

lemma await_ready_no_link:
  assumes "x \<in> set (snd (await_ready e))"
  shows "\<not> is_AddBlockLink x \<and> \<not> is_commit_event x \<and> \<not> is_crypto_call x \<and>
         (\<forall>h d. x \<noteq> CallPutFallbackBlock h d)"
  using await_ready_events [of e] assms by (auto simp: is_AddBlockLink_def)

lemma commit_eq:
  assumes "unat (GetShardId (GetHeader fb)) < length (m_shards nd)"
  shows "commit e nd fb =
     (let link = CallAddBlockLink (GetLatestIndex (m_blocklinkchain nd) + 1)
                   (GetFallbackDSEpochNo (GetHeader fb)) FB (GetBlockHash fb);
          chain = AddBlockLink (m_blocklinkchain nd) (GetLatestIndex (m_blocklinkchain nd) + 1)
                   (GetFallbackDSEpochNo (GetHeader fb)) FB (GetBlockHash fb);
          dsComm = UpdateDSCommittee_loop (GetLeaderPubKey (GetHeader fb))
                     (GetLeaderNetworkInfo (GetHeader fb))
                     (m_shards nd ! unat (GetShardId (GetHeader fb))) [];
          tail = [CallFallbackTimerPulse, Acquire m_mutexDSCommittee,
                  Release m_mutexDSCommittee, CallDetachedFunction_writeStateToDisk]
      in case fbblockwshards_Serialize e fb (m_shards nd) of
           None \<Rightarrow>
             (Done, nd\<lparr>m_blocklinkchain := chain, m_DSCommittee := dsComm\<rparr>, link # tail)
         | Some dst \<Rightarrow>
             if PutFallbackBlock_ok e (GetBlockHash fb) dst
             then (Done,
                   nd\<lparr>m_blocklinkchain := chain,
                      blockStorage := (blockStorage nd)(GetBlockHash fb \<mapsto> dst),
                      m_DSCommittee := dsComm\<rparr>,
                   link # CallPutFallbackBlock (GetBlockHash fb) dst # tail)
             else (Rejected StoreFailed, nd\<lparr>m_blocklinkchain := chain\<rparr>,
                   [link, CallPutFallbackBlock (GetBlockHash fb) dst]))"
  using assms
  by (simp add: commit_def commit_tail_def UpdateDSCommitteeAfterFallback_def Let_def
        split: option.splits)

lemma commit_events:
  assumes "unat (GetShardId (GetHeader fb)) < length (m_shards nd)"
  shows "(\<forall>x \<in> set (snd (snd (commit e nd fb))). \<not> is_crypto_call x) \<and>
         (\<exists>x \<in> set (snd (snd (commit e nd fb))). is_commit_event x) \<and>
         (fst (commit e nd fb) = Done \<or> fst (commit e nd fb) = Rejected StoreFailed)"
  by (simp add: commit_eq [OF assms] Let_def split: option.splits)

lemma post_commit_fields:
  "m_blocklinkchain (fst (post_commit e nd fb)) = m_blocklinkchain nd \<and>
   m_DSCommittee (fst (post_commit e nd fb)) = m_DSCommittee nd \<and>
   blockStorage (fst (post_commit e nd fb)) = blockStorage nd \<and>
   m_shards (fst (post_commit e nd fb)) = m_shards nd"
  by (simp add: post_commit_def split: if_splits)

lemma post_commit_events_cases:
  "snd (post_commit e nd fb) = [] \<or>
   snd (post_commit e nd fb) =
     [Acquire m_mutexProcessedTransactions, Release m_mutexProcessedTransactions,
      CallCleanCreatedTransaction, CallCleanMicroblockConsensusBuffer, CallInitTemp,
      CallInitiatePoW] \<or>
   (\<exists>m. snd (post_commit e nd fb) =
     [CallSendBlockToOtherShardNodes m (cluster_size_used e) (NUM_OF_TREEBASED_CHILD_CLUSTERS e),
      Acquire m_mutexProcessedTransactions, Release m_mutexProcessedTransactions,
      CallCleanCreatedTransaction, CallCleanMicroblockConsensusBuffer, CallInitTemp,
      CallInitiatePoW])"
proof (cases "SetNodeFallbackBlock e [MessageType_NODE e, NodeInstructionType_FALLBACKBLOCK e]
                (MessageOffset_BODY e) fb")
  case None
  then show ?thesis
    by (simp add: post_commit_def SendFallbackBlockToOtherShardNodes_def)
next
  case (Some m)
  then show ?thesis
    by (simp add: post_commit_def SendFallbackBlockToOtherShardNodes_def)
qed

lemma post_commit_events:
  assumes "x \<in> set (snd (post_commit e nd fb))"
  shows "\<not> is_crypto_call x \<and> \<not> is_commit_event x \<and>
         (\<forall>i d t h. x \<noteq> CallAddBlockLink i d t h) \<and> (\<forall>h d. x \<noteq> CallPutFallbackBlock h d)"
  using post_commit_events_cases [of e nd fb] assms by auto

lemma post_commit_no_link:
  assumes "x \<in> set (snd (post_commit e nd fb))"
  shows "\<not> is_AddBlockLink x"
  using post_commit_events [OF assms] by (cases x) (simp_all add: is_AddBlockLink_def)

subsection \<open>The code against the checks of the specification\<close>

lemma leader_found_iff:
  "(find (\<lambda>item. k = SHARD_NODE_PUBKEY item \<and> p = SHARD_NODE_PEER item) shard = None) =
   ((k, p) \<notin> set (map member_pair shard))"
  by (auto simp: find_None_iff member_pair_def)

lemma first_failure_unfold:
  "first_failure e nd message cur_offset =
     (if \<not> (CheckState_PROCESS_FALLBACKBLOCK e \<or> wait_for_WAITING_FALLBACKBLOCK e)
      then Some AWAIT_READY
      else
        (case GetNodeFallbackBlock e message cur_offset of
           None \<Rightarrow> Some DECODE
         | Some fb \<Rightarrow>
             if \<not> block_check e nd fb VERSION_CHECK then Some VERSION_CHECK
             else if \<not> block_check e nd fb FRESHNESS_CHECK then Some FRESHNESS_CHECK
             else if \<not> block_check e nd fb HASH_INTEGRITY_CHECK then Some HASH_INTEGRITY_CHECK
             else if \<not> block_check e nd fb TIMESTAMP_CHECK then Some TIMESTAMP_CHECK
             else find (\<lambda>s. \<not> block_check e nd fb s) locked_checks))"
  by (simp add: first_failure_def pipeline_order_def check_passes_def locked_checks_def
        split: option.splits)

lemma locked_section_fail:
  assumes "find (\<lambda>s. \<not> block_check e nd fb s) locked_checks = Some s"
  shows "\<exists>r. stage_of r = s \<and>
           locked_section e nd fb =
             (Rejected r, nd,
              if s = COSIG_CHECK then snd (VerifyFallbackBlockCoSignature_run e nd fb) else [])"
proof (cases "unat (GetShardId (GetHeader fb)) < length (m_shards nd)")
  case False
  with assms show ?thesis
    by (auto simp: locked_checks_def locked_section_def Let_def)
next
  case True
  from cosig_returns [OF True, of e] obtain b
    where b: "VerifyFallbackBlockCoSignature e nd fb = Some b" by auto
  from assms True b show ?thesis
    by (auto simp: locked_checks_def locked_section_def Let_def leader_found_iff not_less
          split: if_splits option.splits prod.splits bool.splits)
qed

lemma locked_section_pass:
  assumes "find (\<lambda>s. \<not> block_check e nd fb s) locked_checks = None"
  shows "locked_section e nd fb =
           (case commit e nd fb of
              (r, nd', evm) \<Rightarrow>
                (r, nd', snd (VerifyFallbackBlockCoSignature_run e nd fb) @ evm))"
  using assms
  by (auto simp: locked_checks_def locked_section_def Let_def leader_found_iff not_less
        split: if_splits option.splits prod.splits bool.splits)

lemma run_fail:
  assumes "first_failure e nd message cur_offset = Some s"
  shows "\<exists>r. stage_of r = s \<and>
           ProcessFallbackBlock_run e nd message cur_offset from =
             (Rejected r, nd,
              snd (await_ready e) @
              (if s \<in> set locked_checks
               then [Acquire m_mutexShards] @
                    (if s = COSIG_CHECK
                     then snd (VerifyFallbackBlockCoSignature_run e nd
                                 (the (GetNodeFallbackBlock e message cur_offset)))
                     else []) @
                    [Release m_mutexShards]
               else []))"
proof (cases "CheckState_PROCESS_FALLBACKBLOCK e \<or> wait_for_WAITING_FALLBACKBLOCK e")
  case False
  with assms show ?thesis
    by (auto simp: first_failure_unfold ProcessFallbackBlock_run_def await_ready_def
          locked_checks_def)
next
  case ready: True
  show ?thesis
  proof (cases "GetNodeFallbackBlock e message cur_offset")
    case None
    with assms ready show ?thesis
      by (auto simp: first_failure_unfold ProcessFallbackBlock_run_def await_ready_def
            locked_checks_def)
  next
    case (Some fb)
    show ?thesis
    proof (cases "block_check e nd fb VERSION_CHECK \<and> block_check e nd fb FRESHNESS_CHECK \<and>
                  block_check e nd fb HASH_INTEGRITY_CHECK \<and> block_check e nd fb TIMESTAMP_CHECK")
      case False
      with assms ready Some show ?thesis
        by (auto simp: first_failure_unfold ProcessFallbackBlock_run_def await_ready_def
              locked_checks_def split: if_splits)
    next
      case True
      with assms ready Some
      have f: "find (\<lambda>s. \<not> block_check e nd fb s) locked_checks = Some s"
        by (simp add: first_failure_unfold)
      from locked_section_fail [OF f] obtain r where r: "stage_of r = s"
        "locked_section e nd fb =
           (Rejected r, nd,
            if s = COSIG_CHECK then snd (VerifyFallbackBlockCoSignature_run e nd fb) else [])"
        by auto
      have mem: "s \<in> set locked_checks"
        using f by (auto simp: find_Some_iff)
      from True ready Some r mem show ?thesis
        by (auto simp: ProcessFallbackBlock_run_def await_ready_def)
    qed
  qed
qed

lemma run_pass:
  assumes "first_failure e nd message cur_offset = None"
  shows "\<exists>fb. GetNodeFallbackBlock e message cur_offset = Some fb \<and>
           unat (GetShardId (GetHeader fb)) < length (m_shards nd) \<and>
           ProcessFallbackBlock_run e nd message cur_offset from =
             (case commit e nd fb of
                (r, nd1, evm) \<Rightarrow>
                  (r, if r = Done then fst (post_commit e nd1 fb) else nd1,
                   snd (await_ready e) @ [Acquire m_mutexShards] @
                   snd (VerifyFallbackBlockCoSignature_run e nd fb) @ evm @
                   [Release m_mutexShards] @
                   (if r = Done then snd (post_commit e nd1 fb) else [])))"
proof -
  from assms obtain fb where fb: "GetNodeFallbackBlock e message cur_offset = Some fb"
    by (auto simp: first_failure_unfold split: if_splits option.splits)
  from assms fb have f: "find (\<lambda>s. \<not> block_check e nd fb s) locked_checks = None"
    by (auto simp: first_failure_unfold split: if_splits)
  then have sh: "unat (GetShardId (GetHeader fb)) < length (m_shards nd)"
    by (auto simp: locked_checks_def split: if_splits)
  from assms fb sh show ?thesis
    by (auto simp: first_failure_unfold ProcessFallbackBlock_run_def await_ready_def
          locked_section_pass [OF f]
          split: if_splits option.splits prod.splits outcome.splits)
qed

lemma done_all_checks_pass:
  assumes "fst (ProcessFallbackBlock_run e nd message cur_offset from) = Done"
  shows "first_failure e nd message cur_offset = None"
proof (cases "first_failure e nd message cur_offset")
  case None
  then show ?thesis .
next
  case (Some s)
  from run_fail [OF Some, of "from"] assms show ?thesis by auto
qed

lemma run_send_events:
  assumes "CallSendBlockToOtherShardNodes m c k \<in>
             set (snd (snd (ProcessFallbackBlock_run e nd message cur_offset from)))"
  shows "c = cluster_size_used e \<and> k = NUM_OF_TREEBASED_CHILD_CLUSTERS e \<and>
         fst (ProcessFallbackBlock_run e nd message cur_offset from) = Done"
proof (cases "first_failure e nd message cur_offset")
  case None
  from run_pass [OF None, of "from"] obtain fb
    where sh: "unat (GetShardId (GetHeader fb)) < length (m_shards nd)"
      and run: "ProcessFallbackBlock_run e nd message cur_offset from =
             (case commit e nd fb of
                (r, nd1, evm) \<Rightarrow>
                  (r, if r = Done then fst (post_commit e nd1 fb) else nd1,
                   snd (await_ready e) @ [Acquire m_mutexShards] @
                   snd (VerifyFallbackBlockCoSignature_run e nd fb) @ evm @
                   [Release m_mutexShards] @
                   (if r = Done then snd (post_commit e nd1 fb) else [])))"
    by auto
  obtain r nd1 evm where c: "commit e nd fb = (r, nd1, evm)"
    by (cases "commit e nd fb") auto
  have evm: "CallSendBlockToOtherShardNodes m c k \<notin> set evm"
    using c by (auto simp: commit_eq [OF sh] Let_def split: option.splits if_splits)
  have pre: "CallSendBlockToOtherShardNodes m c k \<notin> set (snd (await_ready e))"
       "CallSendBlockToOtherShardNodes m c k \<notin>
          set (snd (VerifyFallbackBlockCoSignature_run e nd fb))"
    using await_ready_events [of e] cosig_events [of e nd fb] by auto
  from assms evm pre have "r = Done \<and>
      CallSendBlockToOtherShardNodes m c k \<in> set (snd (post_commit e nd1 fb))"
    by (auto simp: run c split: if_splits)
  then show ?thesis
    using post_commit_events_cases [of e nd1 fb] by (auto simp: run c)
next
  case (Some s)
  from run_fail [OF Some, of "from"] obtain r where
    run: "ProcessFallbackBlock_run e nd message cur_offset from =
             (Rejected r, nd,
              snd (await_ready e) @
              (if s \<in> set locked_checks
               then [Acquire m_mutexShards] @
                    (if s = COSIG_CHECK
                     then snd (VerifyFallbackBlockCoSignature_run e nd
                                 (the (GetNodeFallbackBlock e message cur_offset)))
                     else []) @
                    [Release m_mutexShards]
               else []))"
    by auto
  from assms show ?thesis
    using await_ready_events [of e]
      cosig_events [of e nd "the (GetNodeFallbackBlock e message cur_offset)"]
    by (auto simp: run split: if_splits)
qed

subsection \<open>The sample run\<close>

lemmas ex_defs = ex_env_def ex_node_def ex_block_def ex_header_def ex_shard_def ex_message_def

lemmas run_defs = ProcessFallbackBlock_run_def await_ready_def locked_section_def commit_def
  commit_tail_def post_commit_def VerifyFallbackBlockCoSignature_def
  VerifyFallbackBlockCoSignature_run_def cosig_message_def write_at_def
  UpdateDSCommitteeAfterFallback_def SendFallbackBlockToOtherShardNodes_def
  cluster_size_used_def GetLatestIndex_def AddBlockLink_def SHARD_NODE_PUBKEY_def
  SHARD_NODE_PEER_def

lemma ex_cosig_run:
  "VerifyFallbackBlockCoSignature_run ex_env ex_node ex_block =
     (CosigVerified,
      [CallAggregatePubKeys [PubKey 1, PubKey 3, PubKey 4],
       CallMultiSigVerify [1, 2, 3, 4, 5] 0 5 (Signature 2) (PubKey 3)])"
  by (simp add: VerifyFallbackBlockCoSignature_run_def ex_defs cosig_message_def
        write_at_def SHARD_NODE_PUBKEY_def Let_def)

lemma ex_run:
  "ProcessFallbackBlock_run ex_env ex_node ex_message 2 (Peer 0 0) =
     (Done,
      ex_node\<lparr>m_blocklinkchain :=
                 [\<lparr>bl_index = 41, bl_dsindex = 4, bl_type = DS, bl_hash = [1]\<rparr>,
                  \<lparr>bl_index = 42, bl_dsindex = 5, bl_type = FB, bl_hash = [171]\<rparr>],
               blockStorage := [[171] \<mapsto> [9]],
               m_DSCommittee := [(PubKey 2, Peer 2 2), (PubKey 1, Peer 1 1),
                                 (PubKey 3, Peer 3 3), (PubKey 4, Peer 4 4)],
               m_processedTransactions := [9 \<mapsto> [1, 2]](9 := None)\<rparr>,
      [Acquire m_mutexShards,
       CallAggregatePubKeys [PubKey 1, PubKey 3, PubKey 4],
       CallMultiSigVerify [1, 2, 3, 4, 5] 0 5 (Signature 2) (PubKey 3),
       CallAddBlockLink 42 5 FB [171], CallPutFallbackBlock [171] [9],
       CallFallbackTimerPulse, Acquire m_mutexDSCommittee, Release m_mutexDSCommittee,
       CallDetachedFunction_writeStateToDisk, Release m_mutexShards,
       CallSendBlockToOtherShardNodes [2, 6, 7] 6 2,
       Acquire m_mutexProcessedTransactions, Release m_mutexProcessedTransactions,
       CallCleanCreatedTransaction, CallCleanMicroblockConsensusBuffer, CallInitTemp,
       CallInitiatePoW])"
  by (simp add: run_defs ex_defs Let_def)

lemma ex_run_store_fails:
  "ProcessFallbackBlock_run ex_env_store_fails ex_node ex_message 2 (Peer 0 0) =
     (Rejected StoreFailed,
      ex_node\<lparr>m_blocklinkchain :=
                 [\<lparr>bl_index = 41, bl_dsindex = 4, bl_type = DS, bl_hash = [1]\<rparr>,
                  \<lparr>bl_index = 42, bl_dsindex = 5, bl_type = FB, bl_hash = [171]\<rparr>]\<rparr>,
      [Acquire m_mutexShards,
       CallAggregatePubKeys [PubKey 1, PubKey 3, PubKey 4],
       CallMultiSigVerify [1, 2, 3, 4, 5] 0 5 (Signature 2) (PubKey 3),
       CallAddBlockLink 42 5 FB [171], CallPutFallbackBlock [171] [9],
       Release m_mutexShards])"
  by (simp add: run_defs ex_defs ex_env_store_fails_def Let_def)

lemma ex_first_failure: "first_failure ex_env ex_node ex_message 2 = None"
  by (simp add: first_failure_def pipeline_order_def check_passes_def run_defs ex_defs
        member_pair_def Let_def)

lemma ex_first_failure_serialize_fails:
  "first_failure ex_env_serialize_fails ex_node ex_message 2 = None"
  by (simp add: first_failure_def pipeline_order_def check_passes_def run_defs ex_defs
        ex_env_serialize_fails_def member_pair_def Let_def)

lemma ex_first_failure_state_root:
  "first_failure ex_env (ex_node\<lparr>accountStore_StateRootHash := [8]\<rparr>) ex_message 2 =
     Some STATE_ROOT_CHECK"
  by (simp add: first_failure_def pipeline_order_def check_passes_def run_defs ex_defs
        member_pair_def Let_def)

subsection \<open>The quorum count check\<close>

text \<open>
  Claim C1, as amended. For a block whose \<open>B2\<close> is as long as the shard (of fewer than
  \<open>2 ^ 32\<close> members), the count check rejects exactly when the number of set bits of
  \<open>B2\<close> differs from \<open>NumForConsensus\<close> of the shard size, whether it is below or
  above it; when the number equals it, the check passes and the function goes on to
  aggregate the selected keys.
\<close>

theorem quorum_count_check_exact:
  assumes "unat (GetShardId (GetHeader fb)) < length (m_shards nd)"
      and "length (m_shards nd ! unat (GetShardId (GetHeader fb))) = length (GetB2 fb)"
      and "length (GetB2 fb) < 2 ^ 32"
  shows "(count_set_bits (GetB2 fb) \<noteq> unat (NumForConsensus e (length (GetB2 fb))) \<longrightarrow>
            VerifyFallbackBlockCoSignature_run e nd fb = (CosigNotEnough, []) \<and>
            VerifyFallbackBlockCoSignature e nd fb = Some False) \<and>
         (count_set_bits (GetB2 fb) = unat (NumForConsensus e (length (GetB2 fb))) \<longrightarrow>
            fst (VerifyFallbackBlockCoSignature_run e nd fb) \<noteq> CosigNotEnough \<and>
            (\<exists>evs. snd (VerifyFallbackBlockCoSignature_run e nd fb) =
               CallAggregatePubKeys
                 (selected_keys (m_shards nd ! unat (GetShardId (GetHeader fb))) (GetB2 fb))
               # evs))"
  by (simp add: cosig_run_sizes_equal [OF assms] VerifyFallbackBlockCoSignature_def Let_def
        split: option.splits)

text \<open>
  The sample block has three set bits and is not rejected at the count check; with four set
  bits it is.
\<close>

theorem quorum_count_check_exact_witness:
  "count_set_bits (GetB2 ex_block) = unat (NumForConsensus ex_env (length (GetB2 ex_block))) \<and>
   fst (VerifyFallbackBlockCoSignature_run ex_env ex_node ex_block) \<noteq> CosigNotEnough \<and>
   count_set_bits (GetB2 ex_block_all_signed) \<noteq>
     unat (NumForConsensus ex_env (length (GetB2 ex_block_all_signed))) \<and>
   VerifyFallbackBlockCoSignature ex_env ex_node ex_block_all_signed = Some False"
proof -
  have a1: "unat (GetShardId (GetHeader ex_block)) < length (m_shards ex_node)"
    by (simp add: ex_defs)
  have a2: "length (m_shards ex_node ! unat (GetShardId (GetHeader ex_block))) =
            length (GetB2 ex_block)"
    by (simp add: ex_defs)
  have a3: "length (GetB2 ex_block) < 2 ^ 32"
    by (simp add: ex_defs)
  have b1: "unat (GetShardId (GetHeader ex_block_all_signed)) < length (m_shards ex_node)"
    by (simp add: ex_defs ex_block_all_signed_def)
  have b2: "length (m_shards ex_node ! unat (GetShardId (GetHeader ex_block_all_signed))) =
            length (GetB2 ex_block_all_signed)"
    by (simp add: ex_defs ex_block_all_signed_def)
  have b3: "length (GetB2 ex_block_all_signed) < 2 ^ 32"
    by (simp add: ex_defs ex_block_all_signed_def)
  have c1: "count_set_bits (GetB2 ex_block) =
            unat (NumForConsensus ex_env (length (GetB2 ex_block)))"
    by (simp add: ex_defs count_set_bits_def)
  have c2: "count_set_bits (GetB2 ex_block_all_signed) \<noteq>
            unat (NumForConsensus ex_env (length (GetB2 ex_block_all_signed)))"
    by (simp add: ex_defs ex_block_all_signed_def count_set_bits_def)
  show ?thesis
    using quorum_count_check_exact [OF a1 a2 a3, of ex_env]
          quorum_count_check_exact [OF b1 b2 b3, of ex_env] c1 c2
    by simp
qed

text \<open>
  Four of four members signed and the quorum is three: the count is above the threshold
  and the block is rejected at the count check.
\<close>

theorem quorum_above_threshold_counterexample:
  "length (GetB2 ex_block_all_signed) =
     length (m_shards ex_node ! unat (GetShardId (GetHeader ex_block_all_signed))) \<and>
   unat (NumForConsensus ex_env (length (GetB2 ex_block_all_signed))) = 3 \<and>
   count_set_bits (GetB2 ex_block_all_signed) = 4 \<and>
   VerifyFallbackBlockCoSignature_run ex_env ex_node ex_block_all_signed = (CosigNotEnough, []) \<and>
   VerifyFallbackBlockCoSignature ex_env ex_node ex_block_all_signed = Some False"
  by (simp add: VerifyFallbackBlockCoSignature_def VerifyFallbackBlockCoSignature_run_def
        ex_defs ex_block_all_signed_def count_set_bits_def SHARD_NODE_PUBKEY_def Let_def)

subsection \<open>Rejection after the chain has been extended\<close>

text \<open>
  Claim C2 says that a call returning false leaves all shared state as it was, also when
  the persistence call fails. On the sample block, which passes every check, with a block
  storage that refuses it, the function returns false and the BlockLink chain has the new
  entry of index 42: \<open>AddBlockLink\<close> (line 264) runs before \<open>PutFallbackBlock\<close> (line
  276) and the \<open>return false\<close> of line 279 does not undo it.
\<close>

theorem store_failure_leaves_block_link:
  "ProcessFallbackBlock ex_env_store_fails ex_node ex_message 2 (Peer 0 0) = Some False \<and>
   fst (ProcessFallbackBlock_run ex_env_store_fails ex_node ex_message 2 (Peer 0 0)) =
     Rejected StoreFailed \<and>
   m_blocklinkchain
       (fst (snd (ProcessFallbackBlock_run ex_env_store_fails ex_node ex_message 2 (Peer 0 0)))) =
     m_blocklinkchain ex_node @
     [\<lparr>bl_index = 42, bl_dsindex = 5, bl_type = FB, bl_hash = [171]\<rparr>] \<and>
   m_blocklinkchain
       (fst (snd (ProcessFallbackBlock_run ex_env_store_fails ex_node ex_message 2 (Peer 0 0)))) \<noteq>
     m_blocklinkchain ex_node \<and>
   CallAddBlockLink 42 5 FB [171] \<in>
     set (snd (snd (ProcessFallbackBlock_run ex_env_store_fails ex_node ex_message 2 (Peer 0 0))))"
  by (simp add: ProcessFallbackBlock_def ex_run_store_fails) (simp add: ex_node_def)

subsection \<open>DS committee succession\<close>

text \<open>
  Claim C3, as amended. For every shard that contains the pair of leader key and leader
  address, \<open>UpdateDSCommitteeAfterFallback\<close> discards the previous committee (the result
  does not depend on \<open>dsComm\<close>) and builds a new one whose first element is that pair.
  The pair is pushed to the front once for every member of the shard that carries it, so
  the new committee starts with as many copies of the pair as the shard has; the members
  that differ from the pair follow in their shard order, each reduced to public key and
  network address. When the shard holds the pair exactly once (\<open>n = 0\<close>), the committee
  is the leader followed by all other members in shard order.
\<close>

theorem succession_leader_first:
  assumes "unat shard_id < length shards"
      and "(leaderPubKey, leaderNetworkInfo) \<in> set (map member_pair (shards ! unat shard_id))"
  shows "\<exists>n. count_list (map member_pair (shards ! unat shard_id))
                (leaderPubKey, leaderNetworkInfo) = Suc n \<and>
              UpdateDSCommitteeAfterFallback shard_id leaderPubKey leaderNetworkInfo dsComm shards =
                Some ((leaderPubKey, leaderNetworkInfo) #
                      replicate n (leaderPubKey, leaderNetworkInfo) @
                      filter (\<lambda>m. m \<noteq> (leaderPubKey, leaderNetworkInfo))
                        (map member_pair (shards ! unat shard_id)))"
proof -
  let ?L = "(leaderPubKey, leaderNetworkInfo)"
  let ?ms = "map member_pair (shards ! unat shard_id)"
  from assms(2) have "count_list ?ms ?L \<noteq> 0"
    by (simp only: count_list_0_iff not_not)
  then obtain n where n: "count_list ?ms ?L = Suc n"
    by (cases "count_list ?ms ?L") simp_all
  show ?thesis
    using assms(1) n
    by (simp add: UpdateDSCommitteeAfterFallback_def UpdateDSCommittee_loop_eq)
qed

text \<open>The sample shard holds the leader once, at its second position.\<close>

theorem succession_leader_first_witness:
  "(PubKey 2, Peer 2 2) \<in> set (map member_pair ([ex_shard] ! unat (0 :: 32 word))) \<and>
   UpdateDSCommitteeAfterFallback 0 (PubKey 2) (Peer 2 2) [(PubKey 9, Peer 9 9)] [ex_shard] =
     Some [(PubKey 2, Peer 2 2), (PubKey 1, Peer 1 1), (PubKey 3, Peer 3 3),
           (PubKey 4, Peer 4 4)]"
proof -
  have h1: "unat (0 :: 32 word) < length [ex_shard]" by simp
  have h2: "(PubKey 2, Peer 2 2) \<in> set (map member_pair ([ex_shard] ! unat (0 :: 32 word)))"
    by (simp add: ex_shard_def member_pair_def SHARD_NODE_PUBKEY_def SHARD_NODE_PEER_def)
  from succession_leader_first [OF h1 h2, of "[(PubKey 9, Peer 9 9)]"] h2
  show ?thesis
    by (simp add: ex_shard_def member_pair_def SHARD_NODE_PUBKEY_def SHARD_NODE_PEER_def)
qed

text \<open>
  With the leader's pair at the second and at the fourth position of the shard, both
  copies come first: what follows the first element is neither the members that differ
  from the leader nor the shard with one occurrence of the leader removed.
\<close>

theorem succession_duplicate_leader_counterexample:
  "(PubKey 2, Peer 2 2) \<in> set (map member_pair ex_shard_twice) \<and>
   UpdateDSCommitteeAfterFallback 0 (PubKey 2) (Peer 2 2) [(PubKey 9, Peer 9 9)]
       [ex_shard_twice] =
     Some [(PubKey 2, Peer 2 2), (PubKey 2, Peer 2 2), (PubKey 1, Peer 1 1),
           (PubKey 3, Peer 3 3)] \<and>
   [(PubKey 2, Peer 2 2), (PubKey 1, Peer 1 1), (PubKey 3, Peer 3 3)] \<noteq>
     filter (\<lambda>m. m \<noteq> (PubKey 2, Peer 2 2)) (map member_pair ex_shard_twice) \<and>
   [(PubKey 2, Peer 2 2), (PubKey 1, Peer 1 1), (PubKey 3, Peer 3 3)] \<noteq>
     remove1 (PubKey 2, Peer 2 2) (map member_pair ex_shard_twice)"
  by (simp add: UpdateDSCommitteeAfterFallback_def ex_shard_twice_def member_pair_def
        SHARD_NODE_PUBKEY_def SHARD_NODE_PEER_def)

subsection \<open>The message of the co-signature\<close>

text \<open>
  Claim C4. Whenever the signature check is called, its message is the serialized header,
  followed by the bytes of \<open>CS1\<close>, followed by the encoding of \<open>B1\<close>; it is checked in
  full (from offset 0, over its whole length), against \<open>CS2\<close> and the key aggregated from
  the keys that \<open>B2\<close> selects, and the block is verified exactly when that check succeeds.
\<close>

theorem cosig_canonical_message:
  assumes "length (GetB2 fb) < 2 ^ 32"
      and "CallMultiSigVerify m off sz sg key \<in>
             set (snd (VerifyFallbackBlockCoSignature_run e nd fb))"
  shows "\<exists>hdr. header_Serialize e (GetHeader fb) = Some hdr \<and>
           m = hdr @ CS1_Serialize e (GetCS1 fb) @ BitVector_bytes e (GetB1 fb) \<and>
           off = 0 \<and> sz = length m \<and> sg = GetCS2 fb \<and>
           AggregatePubKeys e
             (selected_keys (m_shards nd ! unat (GetShardId (GetHeader fb))) (GetB2 fb)) =
             Some key \<and>
           (fst (VerifyFallbackBlockCoSignature_run e nd fb) = CosigVerified \<longleftrightarrow>
              MultiSigVerify e m 0 (length m) (GetCS2 fb) key)"
proof -
  have r: "unat (GetShardId (GetHeader fb)) < length (m_shards nd)"
    using assms(2)
    by (auto simp: VerifyFallbackBlockCoSignature_run_def Let_def split: if_splits)
  have s: "length (m_shards nd ! unat (GetShardId (GetHeader fb))) = length (GetB2 fb)"
    using assms(2) r
    by (auto simp: VerifyFallbackBlockCoSignature_run_def Let_def split: if_splits)
  show ?thesis
    using assms(2)
    by (auto simp: cosig_run_sizes_equal [OF r s assms(1)] cosig_message_eq Let_def
          split: if_splits option.splits)
qed

text \<open>
  On the sample block the message is the header bytes \<open>[1, 2]\<close>, the bytes \<open>[3]\<close> of \<open>CS1\<close> and
  the encoding \<open>[4, 5]\<close> of \<open>B1\<close>.
\<close>

theorem cosig_canonical_message_witness:
  "length (GetB2 ex_block) < 2 ^ 32 \<and>
   CallMultiSigVerify [1, 2, 3, 4, 5] 0 5 (Signature 2) (PubKey 3) \<in>
     set (snd (VerifyFallbackBlockCoSignature_run ex_env ex_node ex_block)) \<and>
   header_Serialize ex_env (GetHeader ex_block) = Some [1, 2] \<and>
   CS1_Serialize ex_env (GetCS1 ex_block) = [3] \<and>
   BitVector_bytes ex_env (GetB1 ex_block) = [4, 5] \<and>
   AggregatePubKeys ex_env
     (selected_keys (m_shards ex_node ! unat (GetShardId (GetHeader ex_block)))
        (GetB2 ex_block)) = Some (PubKey 3)"
proof -
  have h1: "length (GetB2 ex_block) < 2 ^ 32" by (simp add: ex_defs)
  have h2: "CallMultiSigVerify [1, 2, 3, 4, 5] 0 5 (Signature 2) (PubKey 3) \<in>
     set (snd (VerifyFallbackBlockCoSignature_run ex_env ex_node ex_block))"
    by (simp add: ex_cosig_run)
  show ?thesis
    using cosig_canonical_message [OF h1 h2] h1 h2
    by (auto simp: ex_env_def)
qed

subsection \<open>Bitmaps of the wrong length\<close>

text \<open>
  Claim C5. A block whose \<open>B2\<close> differs in length from the referenced shard is rejected,
  whatever the bits of \<open>B2\<close> are, and no collaborator has been called: no key has been
  selected or aggregated and no signature verified.
\<close>

theorem bitmap_length_mismatch_rejected:
  assumes "unat (GetShardId (GetHeader fb)) < length (m_shards nd)"
      and "length (GetB2 fb) \<noteq> length (m_shards nd ! unat (GetShardId (GetHeader fb)))"
  shows "VerifyFallbackBlockCoSignature_run e nd fb = (CosigSizeMismatch, []) \<and>
         VerifyFallbackBlockCoSignature e nd fb = Some False"
  using assms
  by (auto simp: VerifyFallbackBlockCoSignature_def VerifyFallbackBlockCoSignature_run_def
        Let_def)

text \<open>
  A bitmap of three bits against the sample shard of four members.
\<close>

theorem bitmap_length_mismatch_rejected_witness:
  "unat (GetShardId (GetHeader (ex_block\<lparr>GetB2 := [True, True, True]\<rparr>))) <
     length (m_shards ex_node) \<and>
   length (GetB2 (ex_block\<lparr>GetB2 := [True, True, True]\<rparr>)) \<noteq>
     length (m_shards ex_node !
               unat (GetShardId (GetHeader (ex_block\<lparr>GetB2 := [True, True, True]\<rparr>)))) \<and>
   VerifyFallbackBlockCoSignature_run ex_env ex_node (ex_block\<lparr>GetB2 := [True, True, True]\<rparr>) =
     (CosigSizeMismatch, []) \<and>
   VerifyFallbackBlockCoSignature ex_env ex_node (ex_block\<lparr>GetB2 := [True, True, True]\<rparr>) =
     Some False"
proof -
  let ?fb = "ex_block\<lparr>GetB2 := [True, True, True]\<rparr>"
  have h1: "unat (GetShardId (GetHeader ?fb)) < length (m_shards ex_node)"
    by (simp add: ex_defs)
  have h2: "length (GetB2 ?fb) \<noteq> length (m_shards ex_node ! unat (GetShardId (GetHeader ?fb)))"
    by (simp add: ex_defs)
  show ?thesis
    using bitmap_length_mismatch_rejected [OF h1 h2, of ex_env] h1 h2 by simp
qed

subsection \<open>The order of the checks\<close>

text \<open>
  Claim C6. The outcome of \<open>ProcessFallbackBlock\<close> is decided by the first check that
  fails in the order readiness, decode, version, freshness, header hash, timestamp, shard
  existence, committee hash, leader identity, state root, co-signature. If there is one,
  the function returns false at a \<open>return\<close> of that check, the node is unchanged and no
  step of the commit has run; unless that check is the co-signature check, no
  cryptographic call has been made. If there is none, the commit step runs and the
  function returns true, or false when the block storage refuses the block. Hence a
  cryptographic call is made only when every check before the co-signature check has
  passed, and a step of the commit runs only when all checks have passed.
\<close>

theorem pipeline_order_fail_fast:
  "(case first_failure e nd message cur_offset of
      Some s \<Rightarrow>
        (\<exists>r. fst (ProcessFallbackBlock_run e nd message cur_offset from) = Rejected r \<and>
              stage_of r = s) \<and>
        fst (snd (ProcessFallbackBlock_run e nd message cur_offset from)) = nd \<and>
        (\<forall>ev \<in> set (snd (snd (ProcessFallbackBlock_run e nd message cur_offset from))).
           \<not> is_commit_event ev) \<and>
        (s \<noteq> COSIG_CHECK \<longrightarrow>
           (\<forall>ev \<in> set (snd (snd (ProcessFallbackBlock_run e nd message cur_offset from))).
              \<not> is_crypto_call ev))
    | None \<Rightarrow>
        (fst (ProcessFallbackBlock_run e nd message cur_offset from) = Done \<or>
         fst (ProcessFallbackBlock_run e nd message cur_offset from) = Rejected StoreFailed) \<and>
        (\<exists>ev \<in> set (snd (snd (ProcessFallbackBlock_run e nd message cur_offset from))).
           is_commit_event ev)) \<and>
   ((\<exists>ev \<in> set (snd (snd (ProcessFallbackBlock_run e nd message cur_offset from))).
       is_crypto_call ev) \<longrightarrow>
    (\<forall>s \<in> set pipeline_order. s \<noteq> COSIG_CHECK \<longrightarrow> check_passes e nd message cur_offset s)) \<and>
   ((\<exists>ev \<in> set (snd (snd (ProcessFallbackBlock_run e nd message cur_offset from))).
       is_commit_event ev) \<longrightarrow>
    (\<forall>s \<in> set pipeline_order. check_passes e nd message cur_offset s))"
proof (cases "first_failure e nd message cur_offset")
  case None
  from run_pass [OF None, of "from"] obtain fb
    where sh: "unat (GetShardId (GetHeader fb)) < length (m_shards nd)"
      and run: "ProcessFallbackBlock_run e nd message cur_offset from =
             (case commit e nd fb of
                (r, nd1, evm) \<Rightarrow>
                  (r, if r = Done then fst (post_commit e nd1 fb) else nd1,
                   snd (await_ready e) @ [Acquire m_mutexShards] @
                   snd (VerifyFallbackBlockCoSignature_run e nd fb) @ evm @
                   [Release m_mutexShards] @
                   (if r = Done then snd (post_commit e nd1 fb) else [])))"
    by auto
  have all: "\<forall>s \<in> set pipeline_order. check_passes e nd message cur_offset s"
    using None by (simp add: first_failure_def find_None_iff)
  from commit_events [OF sh, of e] have
    "(fst (ProcessFallbackBlock_run e nd message cur_offset from) = Done \<or>
      fst (ProcessFallbackBlock_run e nd message cur_offset from) = Rejected StoreFailed) \<and>
     (\<exists>ev \<in> set (snd (snd (ProcessFallbackBlock_run e nd message cur_offset from))).
        is_commit_event ev)"
    by (auto simp: run split: prod.splits)
  with None all show ?thesis by simp
next
  case (Some s)
  from run_fail [OF Some, of "from"] obtain r where r: "stage_of r = s"
    and run: "ProcessFallbackBlock_run e nd message cur_offset from =
             (Rejected r, nd,
              snd (await_ready e) @
              (if s \<in> set locked_checks
               then [Acquire m_mutexShards] @
                    (if s = COSIG_CHECK
                     then snd (VerifyFallbackBlockCoSignature_run e nd
                                 (the (GetNodeFallbackBlock e message cur_offset)))
                     else []) @
                    [Release m_mutexShards]
               else []))"
    by auto
  have nocommit: "\<forall>ev \<in> set (snd (snd (ProcessFallbackBlock_run e nd message cur_offset from))).
           \<not> is_commit_event ev"
    using await_ready_no_link [of _ e] cosig_events_no_link [of _ e nd]
    by (auto simp: run)
  have nocrypto: "s \<noteq> COSIG_CHECK \<Longrightarrow>
           \<forall>ev \<in> set (snd (snd (ProcessFallbackBlock_run e nd message cur_offset from))).
              \<not> is_crypto_call ev"
    using await_ready_no_link [of _ e]
    by (auto simp: run)
  have before: "s = COSIG_CHECK \<Longrightarrow>
     \<forall>s \<in> set pipeline_order. s \<noteq> COSIG_CHECK \<longrightarrow> check_passes e nd message cur_offset s"
    using Some
    by (simp add: first_failure_def pipeline_order_def split: if_splits)
  from Some r run nocommit nocrypto before show ?thesis
    by (cases "s = COSIG_CHECK") auto
qed

text \<open>
  The sample block passes every check and is accepted; against a node whose state root
  differs, the state-root check is the first to fail and the node is left as it was.
\<close>

theorem pipeline_order_fail_fast_witness:
  "first_failure ex_env ex_node ex_message 2 = None \<and>
   fst (ProcessFallbackBlock_run ex_env ex_node ex_message 2 (Peer 0 0)) = Done \<and>
   first_failure ex_env (ex_node\<lparr>accountStore_StateRootHash := [8]\<rparr>) ex_message 2 =
     Some STATE_ROOT_CHECK \<and>
   fst (ProcessFallbackBlock_run ex_env (ex_node\<lparr>accountStore_StateRootHash := [8]\<rparr>)
          ex_message 2 (Peer 0 0)) = Rejected StateRootMismatch \<and>
   fst (snd (ProcessFallbackBlock_run ex_env (ex_node\<lparr>accountStore_StateRootHash := [8]\<rparr>)
          ex_message 2 (Peer 0 0))) = ex_node\<lparr>accountStore_StateRootHash := [8]\<rparr>"
proof -
  have a: "fst (ProcessFallbackBlock_run ex_env ex_node ex_message 2 (Peer 0 0)) = Done"
    by (simp add: ex_run)
  have b: "\<And>r. stage_of r = STATE_ROOT_CHECK \<Longrightarrow> r = StateRootMismatch"
    by (case_tac r) simp_all
  show ?thesis
    using pipeline_order_fail_fast [of ex_env ex_node ex_message 2 "Peer 0 0"]
      pipeline_order_fail_fast [of ex_env "ex_node\<lparr>accountStore_StateRootHash := [8]\<rparr>"
        ex_message 2 "Peer 0 0"]
      ex_first_failure ex_first_failure_state_root a
    by (auto dest: b)
qed

subsection \<open>The BlockLink entry of an accepted block\<close>

text \<open>
  Claim C7. When \<open>ProcessFallbackBlock\<close> accepts a block, the BlockLink chain afterwards is
  the chain before (every earlier entry in place and unchanged) followed by exactly one
  new entry: its index is the previous latest index plus one (the \<open>uint64_t\<close> sum of line
  263), its epoch number is the block's fallback DS-epoch number, its type is \<open>FB\<close> and
  its hash is the block's hash. \<open>AddBlockLink\<close> is called once, with these arguments.
\<close>

theorem accepted_block_appends_one_link:
  assumes "fst (ProcessFallbackBlock_run e nd message cur_offset from) = Done"
  shows "\<exists>fb. GetNodeFallbackBlock e message cur_offset = Some fb \<and>
           m_blocklinkchain (fst (snd (ProcessFallbackBlock_run e nd message cur_offset from))) =
             m_blocklinkchain nd @
             [\<lparr>bl_index = GetLatestIndex (m_blocklinkchain nd) + 1,
               bl_dsindex = GetFallbackDSEpochNo (GetHeader fb), bl_type = FB,
               bl_hash = GetBlockHash fb\<rparr>] \<and>
           filter is_AddBlockLink
               (snd (snd (ProcessFallbackBlock_run e nd message cur_offset from))) =
             [CallAddBlockLink (GetLatestIndex (m_blocklinkchain nd) + 1)
                (GetFallbackDSEpochNo (GetHeader fb)) FB (GetBlockHash fb)]"
proof -
  from run_pass [OF done_all_checks_pass [OF assms], of "from"] obtain fb
    where fb: "GetNodeFallbackBlock e message cur_offset = Some fb"
      and sh: "unat (GetShardId (GetHeader fb)) < length (m_shards nd)"
      and run: "ProcessFallbackBlock_run e nd message cur_offset from =
             (case commit e nd fb of
                (r, nd1, evm) \<Rightarrow>
                  (r, if r = Done then fst (post_commit e nd1 fb) else nd1,
                   snd (await_ready e) @ [Acquire m_mutexShards] @
                   snd (VerifyFallbackBlockCoSignature_run e nd fb) @ evm @
                   [Release m_mutexShards] @
                   (if r = Done then snd (post_commit e nd1 fb) else [])))"
    by auto
  have f1: "filter is_AddBlockLink (snd (await_ready e)) = []"
    by (rule filter_none) (simp add: await_ready_no_link)
  have f2: "filter is_AddBlockLink (snd (VerifyFallbackBlockCoSignature_run e nd fb)) = []"
    by (rule filter_none) (simp add: cosig_events_no_link)
  have f3: "\<And>nd1. filter is_AddBlockLink (snd (post_commit e nd1 fb)) = []"
    by (rule filter_none) (simp add: post_commit_no_link)
  from assms show ?thesis
    by (simp add: fb run commit_eq [OF sh] Let_def f1 f2 f3 post_commit_fields
          AddBlockLink_def is_AddBlockLink_def split: option.splits if_splits)
qed

text \<open>
  The sample chain ends at index 41; the accepted block adds the entry of index 42.
\<close>

theorem accepted_block_appends_one_link_witness:
  "fst (ProcessFallbackBlock_run ex_env ex_node ex_message 2 (Peer 0 0)) = Done \<and>
   GetLatestIndex (m_blocklinkchain ex_node) = 41 \<and>
   m_blocklinkchain (fst (snd (ProcessFallbackBlock_run ex_env ex_node ex_message 2 (Peer 0 0)))) =
     m_blocklinkchain ex_node @
     [\<lparr>bl_index = 42, bl_dsindex = 5, bl_type = FB, bl_hash = [171]\<rparr>]"
proof -
  have h: "fst (ProcessFallbackBlock_run ex_env ex_node ex_message 2 (Peer 0 0)) = Done"
    by (simp add: ex_run)
  show ?thesis
    using accepted_block_appends_one_link [OF h] h
    by (simp add: ex_run) (simp add: ex_defs GetLatestIndex_def)
qed

subsection \<open>The locks held during the cryptographic calls\<close>

text \<open>
  Claim C8, as amended. Every call of key aggregation and of signature verification that
  \<open>ProcessFallbackBlock\<close> makes is made while the calling thread holds the shard-table
  lock \<open>m_mutexShards\<close> and no other lock of this file; in particular it does not hold
  the DS-committee lock.
\<close>

theorem crypto_runs_under_shard_lock:
  "\<forall>L \<in> set (crypto_contexts {}
               (snd (snd (ProcessFallbackBlock_run e nd message cur_offset from)))).
     L = {m_mutexShards}"
proof (cases "first_failure e nd message cur_offset")
  case None
  from run_pass [OF None, of "from"] obtain fb
    where sh: "unat (GetShardId (GetHeader fb)) < length (m_shards nd)"
      and run: "ProcessFallbackBlock_run e nd message cur_offset from =
             (case commit e nd fb of
                (r, nd1, evm) \<Rightarrow>
                  (r, if r = Done then fst (post_commit e nd1 fb) else nd1,
                   snd (await_ready e) @ [Acquire m_mutexShards] @
                   snd (VerifyFallbackBlockCoSignature_run e nd fb) @ evm @
                   [Release m_mutexShards] @
                   (if r = Done then snd (post_commit e nd1 fb) else [])))"
    by auto
  obtain r nd1 evm where c: "commit e nd fb = (r, nd1, evm)"
    by (cases "commit e nd fb") auto
  have "\<forall>x \<in> set evm. \<not> is_crypto_call x"
    using commit_events [OF sh, of e] by (simp add: c)
  then have r1: "\<And>L. crypto_contexts L evm = []"
    by (rule crypto_contexts_none)
  have "\<forall>x \<in> set (snd (post_commit e nd1 fb)). \<not> is_crypto_call x"
    using post_commit_events [of _ e nd1 fb] by blast
  then have r2: "\<And>L. crypto_contexts L (snd (post_commit e nd1 fb)) = []"
    by (rule crypto_contexts_none)
  have "crypto_contexts {}
          (snd (snd (ProcessFallbackBlock_run e nd message cur_offset from))) =
        crypto_contexts {m_mutexShards} (snd (VerifyFallbackBlockCoSignature_run e nd fb))"
    using await_ready_locks [of e] cosig_events_locks [of "{m_mutexShards}" e nd fb]
    by (simp add: run c crypto_contexts_append r1 r2)
  then show ?thesis
    using cosig_events_locks [of "{m_mutexShards}" e nd fb] by auto
next
  case (Some s)
  from run_fail [OF Some, of "from"] obtain r where
    run: "ProcessFallbackBlock_run e nd message cur_offset from =
             (Rejected r, nd,
              snd (await_ready e) @
              (if s \<in> set locked_checks
               then [Acquire m_mutexShards] @
                    (if s = COSIG_CHECK
                     then snd (VerifyFallbackBlockCoSignature_run e nd
                                 (the (GetNodeFallbackBlock e message cur_offset)))
                     else []) @
                    [Release m_mutexShards]
               else []))"
    by auto
  let ?evc = "snd (VerifyFallbackBlockCoSignature_run e nd
                     (the (GetNodeFallbackBlock e message cur_offset)))"
  have "crypto_contexts {}
          (snd (snd (ProcessFallbackBlock_run e nd message cur_offset from))) =
        (if s = COSIG_CHECK then crypto_contexts {m_mutexShards} ?evc else [])"
    using await_ready_locks [of e]
    by (simp add: run crypto_contexts_append locked_checks_def)
  then show ?thesis
    using cosig_events_locks [of "{m_mutexShards}" e nd "the (GetNodeFallbackBlock e message cur_offset)"]
    by (auto split: if_splits)
qed

text \<open>
  On the sample block the cryptographic calls are made, under \<open>m_mutexShards\<close> alone.
\<close>

theorem crypto_runs_under_shard_lock_witness:
  "set (crypto_contexts {}
          (snd (snd (ProcessFallbackBlock_run ex_env ex_node ex_message 2 (Peer 0 0))))) =
     {{m_mutexShards}}"
  using crypto_runs_under_shard_lock [of ex_env ex_node ex_message 2 "Peer 0 0"]
  by (simp add: ex_run)

text \<open>
  On the sample block both cryptographic calls are made with \<open>m_mutexShards\<close> held: the
  guard of line 183 is in scope at the call of line 257.
\<close>

theorem crypto_holds_shard_lock_counterexample:
  "crypto_contexts {}
     (snd (snd (ProcessFallbackBlock_run ex_env ex_node ex_message 2 (Peer 0 0)))) =
     [{m_mutexShards}, {m_mutexShards}] \<and>
   {m_mutexShards} \<noteq> ({} :: lock set)"
  by (simp add: ex_run)

subsection \<open>A failed serialization at commit\<close>

text \<open>
  Claim C9. If a block passes every check and the serialization of the block with the
  sharding structure fails, \<open>ProcessFallbackBlock\<close> does not reject but returns true. The
  block storage is never called and keeps its content. The DS committee is replaced under
  the DS-committee lock, after the fallback timer pulse: whatever it was before, it is now
  the fallback leader's pair of key and address (once for every member of the shard that
  carries it), followed by the shard members that differ from the leader, in shard order,
  each reduced to key and address. The BlockLink entry of the block is added to the chain.
\<close>

theorem serialize_failure_still_accepts:
  assumes "first_failure e nd message cur_offset = None"
      and "GetNodeFallbackBlock e message cur_offset = Some fb"
      and "fbblockwshards_Serialize e fb (m_shards nd) = None"
  shows "fst (ProcessFallbackBlock_run e nd message cur_offset from) = Done \<and>
         ProcessFallbackBlock e nd message cur_offset from = Some True \<and>
         (\<forall>h d. CallPutFallbackBlock h d \<notin>
                  set (snd (snd (ProcessFallbackBlock_run e nd message cur_offset from)))) \<and>
         blockStorage (fst (snd (ProcessFallbackBlock_run e nd message cur_offset from))) =
           blockStorage nd \<and>
         UpdateDSCommitteeAfterFallback (GetShardId (GetHeader fb))
             (GetLeaderPubKey (GetHeader fb)) (GetLeaderNetworkInfo (GetHeader fb))
             (m_DSCommittee nd) (m_shards nd) =
           Some (m_DSCommittee (fst (snd (ProcessFallbackBlock_run e nd message cur_offset from)))) \<and>
         (\<exists>n. count_list (map member_pair (m_shards nd ! unat (GetShardId (GetHeader fb))))
                 (GetLeaderPubKey (GetHeader fb), GetLeaderNetworkInfo (GetHeader fb)) = Suc n \<and>
               m_DSCommittee (fst (snd (ProcessFallbackBlock_run e nd message cur_offset from))) =
                 (GetLeaderPubKey (GetHeader fb), GetLeaderNetworkInfo (GetHeader fb)) #
                 replicate n (GetLeaderPubKey (GetHeader fb), GetLeaderNetworkInfo (GetHeader fb)) @
                 filter (\<lambda>m. m \<noteq> (GetLeaderPubKey (GetHeader fb),
                                      GetLeaderNetworkInfo (GetHeader fb)))
                   (map member_pair (m_shards nd ! unat (GetShardId (GetHeader fb))))) \<and>
         [CallFallbackTimerPulse, Acquire m_mutexDSCommittee, Release m_mutexDSCommittee] =
           filter (\<lambda>ev. ev = CallFallbackTimerPulse \<or> ev = Acquire m_mutexDSCommittee \<or>
                         ev = Release m_mutexDSCommittee)
             (snd (snd (ProcessFallbackBlock_run e nd message cur_offset from))) \<and>
         m_blocklinkchain (fst (snd (ProcessFallbackBlock_run e nd message cur_offset from))) =
           AddBlockLink (m_blocklinkchain nd) (GetLatestIndex (m_blocklinkchain nd) + 1)
             (GetFallbackDSEpochNo (GetHeader fb)) FB (GetBlockHash fb) \<and>
         CallAddBlockLink (GetLatestIndex (m_blocklinkchain nd) + 1)
             (GetFallbackDSEpochNo (GetHeader fb)) FB (GetBlockHash fb) \<in>
           set (snd (snd (ProcessFallbackBlock_run e nd message cur_offset from)))"
proof -
  let ?L = "(GetLeaderPubKey (GetHeader fb), GetLeaderNetworkInfo (GetHeader fb))"
  let ?ms = "map member_pair (m_shards nd ! unat (GetShardId (GetHeader fb)))"
  from run_pass [OF assms(1), of "from"] assms(2)
  have sh: "unat (GetShardId (GetHeader fb)) < length (m_shards nd)"
    and run: "ProcessFallbackBlock_run e nd message cur_offset from =
             (case commit e nd fb of
                (r, nd1, evm) \<Rightarrow>
                  (r, if r = Done then fst (post_commit e nd1 fb) else nd1,
                   snd (await_ready e) @ [Acquire m_mutexShards] @
                   snd (VerifyFallbackBlockCoSignature_run e nd fb) @ evm @
                   [Release m_mutexShards] @
                   (if r = Done then snd (post_commit e nd1 fb) else [])))"
    by auto
  from assms(1) assms(2) have "block_check e nd fb LEADER_IDENTITY_CHECK"
    by (auto simp: first_failure_unfold locked_checks_def split: if_splits)
  then have "?L \<in> set ?ms" by simp
  then have "count_list ?ms ?L \<noteq> 0"
    by (simp only: count_list_0_iff not_not)
  then obtain n where n: "count_list ?ms ?L = Suc n"
    by (cases "count_list ?ms ?L") simp_all
  have p1: "\<And>h d. CallPutFallbackBlock h d \<notin> set (snd (await_ready e))"
    using await_ready_no_link by blast
  have p2: "\<And>h d. CallPutFallbackBlock h d \<notin> set (snd (VerifyFallbackBlockCoSignature_run e nd fb))"
    using cosig_events_no_link by blast
  have p3: "\<And>h d nd1. CallPutFallbackBlock h d \<notin> set (snd (post_commit e nd1 fb))"
    using post_commit_events by blast
  let ?P = "\<lambda>ev. ev = CallFallbackTimerPulse \<or> ev = Acquire m_mutexDSCommittee \<or>
                  ev = Release m_mutexDSCommittee"
  have q1: "filter ?P (snd (await_ready e)) = []"
    using await_ready_events [of e] by auto
  have q2: "filter ?P (snd (VerifyFallbackBlockCoSignature_run e nd fb)) = []"
    using cosig_events [of e nd fb] by auto
  have q3: "\<And>nd1. filter ?P (snd (post_commit e nd1 fb)) = []"
  proof -
    fix nd1
    show "filter ?P (snd (post_commit e nd1 fb)) = []"
      using post_commit_events_cases [of e nd1 fb] by auto
  qed
  show ?thesis
    using sh n
    by (simp add: ProcessFallbackBlock_def run commit_eq [OF sh] assms(3) Let_def
          post_commit_fields p1 p2 p3 q1 q2 q3 UpdateDSCommitteeAfterFallback_def
          UpdateDSCommittee_loop_eq)
qed

text \<open>
  The sample block with a serializer that fails: the block is accepted and the storage is
  untouched; the committee, which held one member foreign to the shard, now is the leader
  followed by the three other members of the shard; the chain has the entry of index 42.
\<close>

theorem serialize_failure_still_accepts_witness:
  "first_failure ex_env_serialize_fails ex_node ex_message 2 = None \<and>
   GetNodeFallbackBlock ex_env_serialize_fails ex_message 2 = Some ex_block \<and>
   fbblockwshards_Serialize ex_env_serialize_fails ex_block (m_shards ex_node) = None \<and>
   ProcessFallbackBlock ex_env_serialize_fails ex_node ex_message 2 (Peer 0 0) = Some True \<and>
   blockStorage (fst (snd (ProcessFallbackBlock_run ex_env_serialize_fails ex_node ex_message 2
                             (Peer 0 0)))) = blockStorage ex_node \<and>
   m_DSCommittee ex_node = [(PubKey 9, Peer 9 9)] \<and>
   m_DSCommittee (fst (snd (ProcessFallbackBlock_run ex_env_serialize_fails ex_node ex_message 2
                              (Peer 0 0)))) =
     [(PubKey 2, Peer 2 2), (PubKey 1, Peer 1 1), (PubKey 3, Peer 3 3), (PubKey 4, Peer 4 4)] \<and>
   m_DSCommittee (fst (snd (ProcessFallbackBlock_run ex_env_serialize_fails ex_node ex_message 2
                              (Peer 0 0)))) \<noteq> m_DSCommittee ex_node \<and>
   m_blocklinkchain (fst (snd (ProcessFallbackBlock_run ex_env_serialize_fails ex_node ex_message 2
                                 (Peer 0 0)))) =
     m_blocklinkchain ex_node @
     [\<lparr>bl_index = 42, bl_dsindex = 5, bl_type = FB, bl_hash = [171]\<rparr>]"
proof -
  have h2: "GetNodeFallbackBlock ex_env_serialize_fails ex_message 2 = Some ex_block"
    by (simp add: ex_env_serialize_fails_def ex_env_def ex_message_def)
  have h3: "fbblockwshards_Serialize ex_env_serialize_fails ex_block (m_shards ex_node) = None"
    by (simp add: ex_env_serialize_fails_def ex_env_def)
  have ms: "map member_pair (m_shards ex_node ! unat (GetShardId (GetHeader ex_block))) =
            [(PubKey 1, Peer 1 1), (PubKey 2, Peer 2 2), (PubKey 3, Peer 3 3),
             (PubKey 4, Peer 4 4)]"
    by (simp add: ex_defs member_pair_def SHARD_NODE_PUBKEY_def SHARD_NODE_PEER_def)
  have ld: "GetLeaderPubKey (GetHeader ex_block) = PubKey 2"
           "GetLeaderNetworkInfo (GetHeader ex_block) = Peer 2 2"
    by (simp_all add: ex_defs)
  have ch: "GetLatestIndex (m_blocklinkchain ex_node) + 1 = 42"
           "GetFallbackDSEpochNo (GetHeader ex_block) = 5" "GetBlockHash ex_block = [171]"
           "m_DSCommittee ex_node = [(PubKey 9, Peer 9 9)]"
    by (simp_all add: ex_defs GetLatestIndex_def)
  show ?thesis
    using serialize_failure_still_accepts [OF ex_first_failure_serialize_fails h2 h3, of "Peer 0 0"]
      ex_first_failure_serialize_fails h2 h3
    by (auto simp: ms ld ch AddBlockLink_def)
qed

subsection \<open>The cluster size of the broadcast\<close>

text \<open>
  Claim C10, as amended. Every broadcast that \<open>ProcessFallbackBlock\<close> makes goes through
  \<open>SendFallbackBlockToOtherShardNodes\<close> and uses the cluster size
  \<open>NUM_FORWARDED_BLOCK_RECEIVERS_PER_SHARD\<close> when that exceeds \<open>NUM_DS_ELECTION\<close>, and
  \<open>NUM_DS_ELECTION + 1\<close>, computed in \<open>unsigned int\<close>, otherwise; the size used is
  strictly greater than \<open>NUM_DS_ELECTION\<close> whenever \<open>NUM_DS_ELECTION\<close> is not the largest
  value of its type.
\<close>

theorem cluster_size_adjusted:
  "SendFallbackBlockToOtherShardNodes e msg =
     [CallSendBlockToOtherShardNodes msg (cluster_size_used e)
        (NUM_OF_TREEBASED_CHILD_CLUSTERS e)] \<and>
   (CallSendBlockToOtherShardNodes m c k \<in>
      set (snd (snd (ProcessFallbackBlock_run e nd message cur_offset from))) \<longrightarrow>
    c = cluster_size_used e) \<and>
   cluster_size_used e =
     (if NUM_DS_ELECTION e < NUM_FORWARDED_BLOCK_RECEIVERS_PER_SHARD e
      then NUM_FORWARDED_BLOCK_RECEIVERS_PER_SHARD e else NUM_DS_ELECTION e + 1) \<and>
   (NUM_DS_ELECTION e \<noteq> - 1 \<longrightarrow> NUM_DS_ELECTION e < cluster_size_used e)"
proof (intro conjI impI)
  show "SendFallbackBlockToOtherShardNodes e msg =
     [CallSendBlockToOtherShardNodes msg (cluster_size_used e)
        (NUM_OF_TREEBASED_CHILD_CLUSTERS e)]"
    by (simp add: SendFallbackBlockToOtherShardNodes_def)
  show "cluster_size_used e =
     (if NUM_DS_ELECTION e < NUM_FORWARDED_BLOCK_RECEIVERS_PER_SHARD e
      then NUM_FORWARDED_BLOCK_RECEIVERS_PER_SHARD e else NUM_DS_ELECTION e + 1)"
    by (auto simp: cluster_size_used_def Let_def not_less)
next
  assume "CallSendBlockToOtherShardNodes m c k \<in>
      set (snd (snd (ProcessFallbackBlock_run e nd message cur_offset from)))"
  then show "c = cluster_size_used e"
    using run_send_events by blast
next
  assume "NUM_DS_ELECTION e \<noteq> - 1"
  then show "NUM_DS_ELECTION e < cluster_size_used e"
    using word_lt_succ [of "NUM_DS_ELECTION e"]
    by (auto simp: cluster_size_used_def Let_def not_le)
qed

text \<open>
  The sample configuration has 3 receivers and \<open>NUM_DS_ELECTION = 5\<close>: the broadcast uses 6.
\<close>

theorem cluster_size_adjusted_witness:
  "NUM_DS_ELECTION ex_env \<noteq> - 1 \<and>
   CallSendBlockToOtherShardNodes [2, 6, 7] 6 2 \<in>
     set (snd (snd (ProcessFallbackBlock_run ex_env ex_node ex_message 2 (Peer 0 0)))) \<and>
   cluster_size_used ex_env = 6 \<and>
   NUM_DS_ELECTION ex_env < cluster_size_used ex_env"
proof -
  have h: "CallSendBlockToOtherShardNodes [2, 6, 7] 6 2 \<in>
     set (snd (snd (ProcessFallbackBlock_run ex_env ex_node ex_message 2 (Peer 0 0))))"
    by (simp add: ex_run)
  have n: "NUM_DS_ELECTION ex_env \<noteq> - 1" by (simp add: ex_env_def)
  show ?thesis
    using cluster_size_adjusted [of ex_env "[]" "[2, 6, 7]" 6 2 ex_node ex_message 2 "Peer 0 0"]
      h n
    by (simp add: ex_env_def)
qed

text \<open>
  With \<open>NUM_DS_ELECTION = 4294967295\<close> the sum \<open>NUM_DS_ELECTION + 1\<close> wraps to 0, which
  is the cluster size used.
\<close>

theorem cluster_size_wraps_counterexample:
  "NUM_FORWARDED_BLOCK_RECEIVERS_PER_SHARD ex_env_max_election = 3 \<and>
   NUM_DS_ELECTION ex_env_max_election = 4294967295 \<and>
   cluster_size_used ex_env_max_election = 0 \<and>
   \<not> NUM_DS_ELECTION ex_env_max_election < cluster_size_used ex_env_max_election"
  by (simp add: cluster_size_used_def ex_env_max_election_def ex_env_def)

end
